theory Spec2Isabelle
  imports Complex_Main "HOL-Library.AList"
begin

section \<open>Python values, errors and the host environment\<close>

text \<open>
  The nodes of \<^verbatim>\<open>nodes.py\<close> are adapters: they turn widget values into a configuration
  dictionary, check paths, and call the wrapped library in sequence. The embedding keeps
  exactly that: Python values that the adapters inspect are modelled concretely, values
  that they only pass on (tensors, devices, floats) are carried as opaque tokens, every
  \<^verbatim>\<open>raise\<close> and \<^verbatim>\<open>assert\<close> is a branch returning \<open>Inl\<close> of the exception class, and
  every call into the wrapped library is an entry of a call trace. The one tensor that
  an adapter computes with, in the decoder node, is modelled by its shape and elements.
\<close>

text \<open>
  The exception classes that the adapters can raise. The first four are the classes that
  \<^verbatim>\<open>nodes.py\<close> raises with a \<^verbatim>\<open>raise\<close> or an \<^verbatim>\<open>assert\<close> statement; the next five are
  raised by an operation that a statement of \<^verbatim>\<open>nodes.py\<close> evaluates itself (a subscript,
  an attribute access, an operator, a call of a value that is not callable, the binding of
  arguments). \<open>CalleeError c\<close> is an exception of class \<open>c\<close> raised inside a function that
  the adapter calls (\<^verbatim>\<open>Path.exists\<close>, \<^verbatim>\<open>json.load\<close>, \<^verbatim>\<open>int\<close>, a \<^verbatim>\<open>torch\<close> operation):
  the adapters catch nothing, so it passes through them. \<open>OutsideModel\<close> is not a Python
  exception: it marks an operand (a float, a string, a tensor) on which Python would
  compute something that this embedding does not model.
\<close>

datatype error =
    AssertionError
  | FileNotFoundError
  | ValueError
  | NotImplementedError
  | KeyError
  | AttributeError
  | TypeError
  | IndexError
  | ZeroDivisionError
  | CalleeError string
  | OutsideModel

text \<open>The classes of the \<^verbatim>\<open>raise\<close> and \<^verbatim>\<open>assert\<close> statements of \<^verbatim>\<open>nodes.py\<close>.\<close>

definition raised_by_statement :: "error \<Rightarrow> bool" where
  "raised_by_statement e \<longleftrightarrow>
     e \<in> {AssertionError, FileNotFoundError, ValueError, NotImplementedError}"

text \<open>\<^verbatim>\<open>pathlib.Path(s)\<close>: a path object made from a string.\<close>

datatype path = Path string

text \<open>The \<^verbatim>\<open>torch\<close> dtypes that the precision widgets select.\<close>

datatype dtype = bfloat16 | float16 | float32

text \<open>
  Python values. A float is carried by its literal (\<open>VFloat ''0.26''\<close>): the adapters
  store and forward floats and never compute with them. A string that the adapters
  compare as a whole or pass on is a \<open>VStr\<close>; the one string whose characters they look at
  (\<^verbatim>\<open>lora_path\<close>, which is stripped of white space) is a \<open>VUStr\<close>, the list of its Unicode
  code points. \<open>VObj\<close> is an opaque object of the library or the host (a tensor, a device,
  a random generator).
\<close>

datatype pyval =
    VNone
  | VBool bool
  | VInt int
  | VFloat string
  | VStr string
  | VUStr "nat list"
  | VTuple "pyval list"
  | VList "pyval list"
  | VDict "(string \<times> pyval) list"
  | VPath path
  | VDtype dtype
  | VObj nat

text \<open>
  A dictionary with string keys (a \<^verbatim>\<open>dict\<close> or an \<^verbatim>\<open>EasyDict\<close>) is an association
  list, read with \<^const>\<open>map_of\<close> and written with \<^const>\<open>AList.update\<close>, which replaces
  the value of an existing key in place and appends a new key, as Python does.
\<close>

type_synonym dict = "(string \<times> pyval) list"

text \<open>
  A call into the wrapped library. A constructor call also stands for the object it
  returns, and a method call for its return value, so that \<open>set_scheduler m s\<close> is the
  call \<^verbatim>\<open>m.set_scheduler(s)\<close> on the objects that the calls \<open>m\<close> and \<open>s\<close> built. The
  configuration object handed to the library is passed by reference: the number is its
  address in the store of the state below.
\<close>

datatype libcall =
    T5EncoderModel int dtype pyval path path
  | WanVAE int string dtype pyval bool
  | ClipVisionModel dtype pyval pyval pyval
  | WanModel path nat pyval
  | WanLoraWrapper libcall
  | load_lora libcall "nat list"
  | apply_lora libcall libcall pyval
  | WanScheduler nat
  | WanSchedulerTeaCaching nat
  | set_scheduler libcall libcall
  | prepare libcall pyval
  | ProgressBar int
  | step_pre libcall int
  | infer libcall pyval
  | step_post libcall
  | progress_update
  | clear libcall
  | empty_cache

text \<open>
  What the adapters ask of the operating system, of \<^verbatim>\<open>pathlib\<close>, of \<^verbatim>\<open>json\<close>, of the
  host (\<^verbatim>\<open>comfy.model_management\<close>), of \<^verbatim>\<open>math\<close> and of the library. None of it is code
  of this repository, so it is a parameter of every operation:
  \<^item> \<open>truediv p s\<close> is \<^verbatim>\<open>p / s\<close>, \<open>parent p\<close> is \<^verbatim>\<open>p.parent\<close> and \<open>path_str p\<close> is
    \<^verbatim>\<open>str(p)\<close>;
  \<^item> \<open>path_exists p\<close> tells whether there is a file or directory at \<open>p\<close>, and \<open>is_dir p\<close>
    whether it is a directory; \<open>stat_error p\<close> is the class of the error with which the
    operating system refuses to look at \<open>p\<close>, if it does (a name that is too long,
    a directory that may not be searched): \<^verbatim>\<open>Path.exists\<close> and \<^verbatim>\<open>Path.is_dir\<close> pass that
    error on, see \<open>exists_call\<close> below;
  \<^item> \<open>os_path_exists s\<close> is \<^verbatim>\<open>os.path.exists(s)\<close>, which never raises;
  \<^item> \<open>json_load p\<close> is the outcome of \<^verbatim>\<open>json.load(open(p, "r"))\<close>: the JSON value that the
    file holds, or the class of the error that \<^verbatim>\<open>open\<close> or \<^verbatim>\<open>json.load\<close> raises;
  \<^item> \<open>get_torch_device\<close>, \<open>unet_offload_device\<close> and \<open>cpu_device\<close> are the devices
    returned by the host and by \<^verbatim>\<open>torch.device("cpu")\<close>;
  \<^item> \<open>isclose_one x\<close> is what \<^verbatim>\<open>math.isclose(x, 1.0)\<close> returns for a number \<open>x\<close>;
  \<^item> \<open>t5_infer e ps\<close> is what \<^verbatim>\<open>e.infer(ps)\<close> returns for the text encoder \<open>e\<close>;
  \<^item> \<open>clip_visual\<close>, \<open>image_hw\<close>, \<open>latent_size\<close> and \<open>vae_encode\<close> are the tensor
    computations of the image encoder node (see there);
  \<^item> \<open>sched_infer_steps t\<close>, \<open>sched_latents t\<close> and \<open>sched_generator t\<close> are the
    attributes \<^verbatim>\<open>infer_steps\<close>, \<^verbatim>\<open>latents\<close> and \<^verbatim>\<open>generator\<close> of the sampler's
    scheduler, read after the library calls \<open>t\<close>: what the library answers is a function
    of what it has been asked.
\<close>

record env =
  truediv :: "path \<Rightarrow> string \<Rightarrow> path"
  parent :: "path \<Rightarrow> path"
  path_exists :: "path \<Rightarrow> bool"
  is_dir :: "path \<Rightarrow> bool"
  stat_error :: "path \<Rightarrow> string option"
  os_path_exists :: "nat list \<Rightarrow> bool"
  json_load :: "path \<Rightarrow> string + pyval"
  path_str :: "path \<Rightarrow> string"
  get_torch_device :: pyval
  unet_offload_device :: pyval
  cpu_device :: pyval
  isclose_one :: "pyval \<Rightarrow> bool"
  t5_infer :: "libcall \<Rightarrow> string list \<Rightarrow> pyval"
  clip_visual :: "libcall \<Rightarrow> pyval \<Rightarrow> nat"
  image_hw :: "pyval \<Rightarrow> int \<times> int"
  latent_size :: "int \<Rightarrow> int \<Rightarrow> int \<Rightarrow> string + pyval \<times> pyval"
  vae_encode :: "libcall \<Rightarrow> pyval \<Rightarrow> dict \<Rightarrow> nat"
  sched_infer_steps :: "libcall list \<Rightarrow> int"
  sched_latents :: "libcall list \<Rightarrow> pyval"
  sched_generator :: "libcall list \<Rightarrow> pyval"

text \<open>Sequencing of fallible steps: the first exception ends the computation.\<close>

definition bind_err :: "error + 'a \<Rightarrow> ('a \<Rightarrow> error + 'b) \<Rightarrow> error + 'b" where
  "bind_err x f = (case x of Inl e \<Rightarrow> Inl e | Inr v \<Rightarrow> f v)"

text \<open>The outcome of a called function: its value, or the exception raised inside it.\<close>

definition callee :: "string + 'a \<Rightarrow> error + 'a" where
  "callee r = (case r of Inl c \<Rightarrow> Inl (CalleeError c) | Inr v \<Rightarrow> Inr v)"

text \<open>
  \<^verbatim>\<open>p.exists()\<close> and \<^verbatim>\<open>p.is_dir()\<close>. Both ask the operating system for the status of the
  path; they answer \<^verbatim>\<open>False\<close> when it says that there is no such file, and let every
  other error of the operating system through.
\<close>

definition exists_call :: "env \<Rightarrow> path \<Rightarrow> error + bool" where
  "exists_call ev p =
     (case stat_error ev p of Some c \<Rightarrow> Inl (CalleeError c) | None \<Rightarrow> Inr (path_exists ev p))"

definition is_dir_call :: "env \<Rightarrow> path \<Rightarrow> error + bool" where
  "is_dir_call ev p =
     (case stat_error ev p of Some c \<Rightarrow> Inl (CalleeError c) | None \<Rightarrow> Inr (is_dir ev p))"

text \<open>\<^verbatim>\<open>assert c\<close>.\<close>

definition assert_that :: "bool \<Rightarrow> error + unit" where
  "assert_that c = (if c then Inr () else Inl AssertionError)"

text \<open>Truth value of an optional string (\<^verbatim>\<open>if model_dir:\<close>): \<^verbatim>\<open>None\<close> and \<^verbatim>\<open>""\<close> are false.\<close>

fun truthy_str :: "'a list option \<Rightarrow> bool" where
  "truthy_str None = False"
| "truthy_str (Some s) = (s \<noteq> [])"

text \<open>
  The precision table that each loader builds, and its subscript \<^verbatim>\<open>dtype_map[precision]\<close>,
  which raises \<^verbatim>\<open>KeyError\<close> on a missing key.
\<close>

definition dtype_map :: "(string \<times> dtype) list" where
  "dtype_map = [(''bf16'', bfloat16), (''fp16'', float16), (''fp32'', float32)]"

definition subscript :: "(string \<times> 'a) list \<Rightarrow> string \<Rightarrow> error + 'a" where
  "subscript d k = (case map_of d k of None \<Rightarrow> Inl KeyError | Some v \<Rightarrow> Inr v)"

text \<open>\<^verbatim>\<open>device = comfy_mm.get_torch_device() if device == "cuda" else torch.device("cpu")\<close>.\<close>

definition resolve_device :: "env \<Rightarrow> string \<Rightarrow> pyval" where
  "resolve_device ev device = (if device = ''cuda'' then get_torch_device ev else cpu_device ev)"

section \<open>Lightx2vWanVideoModelDir\<close>

text \<open>
  \<^verbatim>\<open>
  def process(self, model_dir):
      assert Path(model_dir).exists(), f"Model directory {model_dir} does not exist."
      return (model_dir,)
  \<close>
\<close>

definition Lightx2vWanVideoModelDir_process :: "env \<Rightarrow> string \<Rightarrow> error + string" where
  "Lightx2vWanVideoModelDir_process ev model_dir =
     bind_err (exists_call ev (Path model_dir)) (\<lambda>b.
     bind_err (assert_that b) (\<lambda>_. Inr model_dir))"

section \<open>The loaders of the text encoder, the VAE and the CLIP vision encoder\<close>

text \<open>
  \<^verbatim>\<open>
  def load_t5_encoder(self, model_name, precision, device, model_dir=None):
      dtype = dtype_map[precision]
      if model_dir:
          model_dir = Path(model_dir)
          model_name = model_dir / model_name
          tokenizer_path = model_dir / "google" / "umt5-xxl"
      else:
          model_name = Path(model_name)
          assert model_name.exists(), (...)
          tokenizer_path = model_name.parent / "google" / "umt5-xxl"
          assert tokenizer_path.exists(), (...)
      (resolve device)
      t5_encoder = T5EncoderModel(text_len=512, dtype=dtype, device=device,
          checkpoint_path=model_name, tokenizer_path=tokenizer_path, shard_fn=None)
      return (t5_encoder,)
  \<close>
\<close>

definition load_t5_encoder ::
  "env \<Rightarrow> string \<Rightarrow> string \<Rightarrow> string \<Rightarrow> string option \<Rightarrow> error + libcall" where
  "load_t5_encoder ev model_name precision device model_dir =
     bind_err (subscript dtype_map precision) (\<lambda>dtype.
     bind_err
       (if truthy_str model_dir then
          let md = Path (the model_dir) in
          Inr (truediv ev md model_name, truediv ev (truediv ev md ''google'') ''umt5-xxl'')
        else
          let mn = Path model_name in
          bind_err (exists_call ev mn) (\<lambda>b.
          bind_err (assert_that b) (\<lambda>_.
          let tokenizer_path = truediv ev (truediv ev (parent ev mn) ''google'') ''umt5-xxl'' in
          bind_err (exists_call ev tokenizer_path) (\<lambda>b'.
          bind_err (assert_that b') (\<lambda>_.
          Inr (mn, tokenizer_path))))))
       (\<lambda>(mn, tokenizer_path).
     Inr (T5EncoderModel 512 dtype (resolve_device ev device) mn tokenizer_path)))"





section \<open>WanVideoTeaCache\<close>

text \<open>The type of an input socket or widget, as the host's convention writes it.\<close>

datatype input_type = FLOAT | INT | STRING | BOOLEAN | COMBO "string list" | SOCKET string

record input_types =
  required :: "(string \<times> input_type) list"
  optional :: "(string \<times> input_type) list"

text \<open>\<^verbatim>\<open>WanVideoTeaCache.INPUT_TYPES()\<close>, without the defaults, ranges and tooltips.\<close>

definition WanVideoTeaCache_INPUT_TYPES :: input_types where
  "WanVideoTeaCache_INPUT_TYPES =
     \<lparr>required =
        [(''rel_l1_thresh'', FLOAT),
         (''start_percent'', FLOAT),
         (''end_percent'', FLOAT),
         (''cache_device'', COMBO [''main_device'', ''offload_device'']),
         (''coefficients'', COMBO [''i2v-14B-720p'', ''i2v-14B-480p'', ''1.3B'', ''14B'', ''disabled''])],
      optional = [(''mode'', COMBO [''e'', ''e0''])]\<rparr>"

text \<open>
  A Python signature after \<^verbatim>\<open>self\<close>: each parameter with its default, if it has one.
  The host calls a node as \<^verbatim>\<open>getattr(obj, obj.FUNCTION)(**inputs)\<close>, with one keyword
  argument for each input it was given. Python binds keyword arguments so: a keyword that
  names no parameter is a \<^verbatim>\<open>TypeError\<close>, and so is a parameter that has no default and
  got no argument; otherwise each parameter gets its argument or its default.
\<close>

type_synonym signature = "(string \<times> pyval option) list"

definition bind_kwargs :: "signature \<Rightarrow> dict \<Rightarrow> error + dict" where
  "bind_kwargs sig kwargs =
     (if list_ex (\<lambda>(k, _). k \<notin> set (map fst sig)) kwargs then Inl TypeError
      else if list_ex (\<lambda>(p, d). d = None \<and> map_of kwargs p = None) sig then Inl TypeError
      else Inr (map (\<lambda>(p, d). (p, case map_of kwargs p of Some v \<Rightarrow> v | None \<Rightarrow> the d)) sig))"

text \<open>
  \<^verbatim>\<open>
  def process(self, rel_l1_thresh, start_step, end_step, cache_device, coefficients,
              mode="e"):
      if cache_device == "main_device":
          teacache_device = comfy_mm.get_torch_device()
      else:
          teacache_device = comfy_mm.unet_offload_device()
      teacache_args = {"rel_l1_thresh": rel_l1_thresh, "start_step": start_step,
          "end_step": end_step, "cache_device": teacache_device,
          "coefficients": coefficients, "mode": mode}
      return (teacache_args,)
  \<close>
\<close>

definition WanVideoTeaCache_process_signature :: signature where
  "WanVideoTeaCache_process_signature =
     [(''rel_l1_thresh'', None), (''start_step'', None), (''end_step'', None),
      (''cache_device'', None), (''coefficients'', None), (''mode'', Some (VStr ''e''))]"

definition WanVideoTeaCache_process ::
  "env \<Rightarrow> pyval \<Rightarrow> pyval \<Rightarrow> pyval \<Rightarrow> pyval \<Rightarrow> pyval \<Rightarrow> pyval \<Rightarrow> dict" where
  "WanVideoTeaCache_process ev rel_l1_thresh start_step end_step cache_device coefficients mode =
     (let teacache_device =
        (if cache_device = VStr ''main_device'' then get_torch_device ev
         else unet_offload_device ev)
      in [(''rel_l1_thresh'', rel_l1_thresh), (''start_step'', start_step),
          (''end_step'', end_step), (''cache_device'', teacache_device),
          (''coefficients'', coefficients), (''mode'', mode)])"

text \<open>The bound argument of a parameter (every parameter is bound once binding succeeded).\<close>

definition arg :: "dict \<Rightarrow> string \<Rightarrow> pyval" where
  "arg args p = (case map_of args p of Some v \<Rightarrow> v | None \<Rightarrow> VNone)"

text \<open>The host's call \<^verbatim>\<open>WanVideoTeaCache().process(**kwargs)\<close>.\<close>

definition WanVideoTeaCache_call :: "env \<Rightarrow> dict \<Rightarrow> error + dict" where
  "WanVideoTeaCache_call ev kwargs =
     bind_err (bind_kwargs WanVideoTeaCache_process_signature kwargs) (\<lambda>args.
     Inr (WanVideoTeaCache_process ev (arg args ''rel_l1_thresh'') (arg args ''start_step'')
            (arg args ''end_step'') (arg args ''cache_device'') (arg args ''coefficients'')
            (arg args ''mode'')))"

section \<open>The image embedding nodes\<close>

text \<open>
  \<^verbatim>\<open>
  def process(self, num_frames, width, height, control_embeds=None):
      config = EasyDict({"target_height": height, "target_width": width,
          "target_video_length": num_frames, "vae_stride": (4, 8, 8),
          "patch_size": (1, 2, 2)})
      return ({"config": config},)
  \<close>
\<close>

definition Lightx2vWanVideoEmptyEmbeds_process :: "int \<Rightarrow> int \<Rightarrow> int \<Rightarrow> dict" where
  "Lightx2vWanVideoEmptyEmbeds_process num_frames width height =
     [(''config'', VDict
        [(''target_height'', VInt height),
         (''target_width'', VInt width),
         (''target_video_length'', VInt num_frames),
         (''vae_stride'', VTuple [VInt 4, VInt 8, VInt 8]),
         (''patch_size'', VTuple [VInt 1, VInt 2, VInt 2])])]"


section \<open>Lightx2vWanVideoModelLoader\<close>

text \<open>
  The state that the model nodes share. The configuration that \<^verbatim>\<open>load_model\<close> builds is
  one \<^verbatim>\<open>EasyDict\<close> object, referred to by the dictionary the node returns and by the
  library's model; \<open>store\<close> maps the address of each such object to its contents and
  \<open>next_ref\<close> is the next free address. \<open>trace\<close> lists the library calls made so far,
  oldest first.
\<close>

record state =
  store :: "nat \<Rightarrow> dict"
  next_ref :: nat
  trace :: "libcall list"

text \<open>The dictionary \<^verbatim>\<open>{"wan_model": model, "config": config}\<close> that \<^verbatim>\<open>load_model\<close> returns.\<close>

record wan_model_output =
  wan_model_entry :: libcall
  config_entry :: nat

text \<open>The arguments of \<^verbatim>\<open>load_model\<close>, each field named after its parameter.\<close>

record load_model_args =
  lm_model_name :: string
  lm_model_type :: string
  lm_precision :: string
  lm_device :: string
  lm_attention_type :: string
  lm_mm_type :: string
  lm_lora_path :: "nat list option"
  lm_lora_strength :: pyval
  lm_cpu_offload :: bool
  lm_teacache_args :: "dict option"
  lm_model_dir :: "string option"

text \<open>\<^verbatim>\<open>dict.update\<close> and \<^verbatim>\<open>EasyDict.update\<close>: each entry of \<open>e\<close> is written into \<open>d\<close>.\<close>

definition dict_update :: "dict \<Rightarrow> dict \<Rightarrow> dict" where
  "dict_update d e = fold (\<lambda>(k, v). AList.update k v) e d"

text \<open>Truth value of an optional dictionary: \<^verbatim>\<open>None\<close> and \<^verbatim>\<open>{}\<close> are false.\<close>

fun truthy_dict :: "dict option \<Rightarrow> bool" where
  "truthy_dict None = False"
| "truthy_dict (Some d) = (d \<noteq> [])"

text \<open>
  The characters that \<^verbatim>\<open>str.strip()\<close> removes, by code point: the ASCII white space
  (tab to carriage return, the separators \<^verbatim>\<open>0x1c\<close> to \<^verbatim>\<open>0x1f\<close>, the space), the next
  line and the no-break space, and the white space of the other Unicode blocks
  (\<^verbatim>\<open>U+1680\<close>, \<^verbatim>\<open>U+2000\<close> to \<^verbatim>\<open>U+200A\<close>, \<^verbatim>\<open>U+2028\<close>, \<^verbatim>\<open>U+2029\<close>, \<^verbatim>\<open>U+202F\<close>,
  \<^verbatim>\<open>U+205F\<close>, \<^verbatim>\<open>U+3000\<close>). \<open>strip_nonempty s\<close> is the truth value of \<^verbatim>\<open>s.strip()\<close>.
\<close>

definition is_space :: "nat \<Rightarrow> bool" where
  "is_space c \<longleftrightarrow>
     c \<in> {9..13} \<union> {28..32} \<union> {133, 160, 5760} \<union> {8192..8202}
         \<union> {8232, 8233, 8239, 8287, 12288}"

definition strip_nonempty :: "nat list \<Rightarrow> bool" where
  "strip_nonempty s = list_ex (\<lambda>c. \<not> is_space c) s"

text \<open>
  \<^verbatim>\<open>
  feature_caching = "Tea" if teacache_args is not None else "NoCaching"
  teacache_thresh = teacache_args["rel_l1_thresh"] if teacache_args else 0.26
  \<close>
\<close>

definition feature_caching_of :: "dict option \<Rightarrow> string" where
  "feature_caching_of teacache_args = (if teacache_args \<noteq> None then ''Tea'' else ''NoCaching'')"

definition teacache_thresh_of :: "dict option \<Rightarrow> error + pyval" where
  "teacache_thresh_of teacache_args =
     (if truthy_dict teacache_args then subscript (the teacache_args) ''rel_l1_thresh''
      else Inr (VFloat ''0.26''))"

text \<open>
  The dictionary literal of \<^verbatim>\<open>load_model\<close> (\<^verbatim>\<open>config = {...}\<close>), from the arguments, the
  resolved model path and device, the dtype, and the two values above.
\<close>

definition config_literal ::
  "load_model_args \<Rightarrow> path \<Rightarrow> pyval \<Rightarrow> dtype \<Rightarrow> string \<Rightarrow> pyval \<Rightarrow> dict" where
  "config_literal a model_name device dtype feature_caching teacache_thresh =
     [(''do_mm_calib'', VBool False),
      (''cpu_offload'', VBool (lm_cpu_offload a)),
      (''parallel_attn_type'', VNone),
      (''parallel_vae'', VBool False),
      (''max_area'', VBool False),
      (''vae_stride'', VTuple [VInt 4, VInt 8, VInt 8]),
      (''patch_size'', VTuple [VInt 1, VInt 2, VInt 2]),
      (''feature_caching'', VStr feature_caching),
      (''teacache_thresh'', teacache_thresh),
      (''use_ret_steps'', VBool False),
      (''use_bfloat16'', VBool (dtype = bfloat16)),
      (''mm_config'', VDict
         [(''mm_type'', VStr (lm_mm_type a)),
          (''weight_auto_quant'', VBool (if lm_mm_type a = ''Default'' then False else True))]),
      (''model_path'', VPath model_name),
      (''task'', VStr (lm_model_type a)),
      (''model_cls'', VStr ''wan2.1''),
      (''device'', device),
      (''attention_type'', VStr (lm_attention_type a)),
      (''lora_path'',
         (if truthy_str (lm_lora_path a) \<and> strip_nonempty (the (lm_lora_path a))
          then VUStr (the (lm_lora_path a)) else VNone)),
      (''strength_model'', lm_lora_strength a)]"

text \<open>
  The part of \<^verbatim>\<open>load_model\<close> before the model is built: it resolves the dtype, the
  device and the model path, checks the path, reads \<^verbatim>\<open>config.json\<close> beside it, and merges
  it over the literal. Without \<^verbatim>\<open>model_dir\<close> the model name stays a string, which
  \<^verbatim>\<open>assert model_name\<close> tests for emptiness and on which \<^verbatim>\<open>.exists()\<close> is an
  \<^verbatim>\<open>AttributeError\<close>; with it the name is a path, which is always true. What
  \<^verbatim>\<open>exists\<close>, \<^verbatim>\<open>is_dir\<close>, \<^verbatim>\<open>open\<close> and \<^verbatim>\<open>json.load\<close> raise passes through.
  \<^verbatim>\<open>
      dtype = dtype_map[precision]
      (resolve device)
      if model_dir:
          model_name = Path(model_dir) / model_name
      assert model_name, "Model path must be provided."
      assert model_name.exists(), (...)
      if model_name.is_dir():
          config_json_path = model_name / "config.json"
      else:
          config_json_path = model_name.parent / "config.json"
      config_json = {}
      if config_json_path.exists():
          with open(config_json_path, "r") as f:
              config_json = json.load(f)
      else:
          logging.error(f"Config file not found at {config_json_path}")
          raise FileNotFoundError(f"Config file not found at {config_json_path}")
      feature_caching = ...
      teacache_thresh = ...
      config = {...}
      config.update(**config_json)
      config = EasyDict(config)
  \<close>
\<close>

definition config_json_path_of :: "env \<Rightarrow> path \<Rightarrow> path" where
  "config_json_path_of ev model_name =
     (if is_dir ev model_name then truediv ev model_name ''config.json''
      else truediv ev (parent ev model_name) ''config.json'')"

text \<open>
  The argument of \<^verbatim>\<open>config.update(**config_json)\<close>: \<^verbatim>\<open>**\<close> takes a mapping and is a
  \<^verbatim>\<open>TypeError\<close> on every other JSON value (a list, a string, a number, \<^verbatim>\<open>null\<close>).
\<close>

fun kwargs_of :: "pyval \<Rightarrow> error + dict" where
  "kwargs_of (VDict d) = Inr d"
| "kwargs_of _ = Inl TypeError"

definition load_model_config :: "env \<Rightarrow> load_model_args \<Rightarrow> error + path \<times> pyval \<times> dict" where
  "load_model_config ev a =
     bind_err (subscript dtype_map (lm_precision a)) (\<lambda>dtype.
     let device = resolve_device ev (lm_device a) in
     bind_err
       (if truthy_str (lm_model_dir a)
        then Inr (truediv ev (Path (the (lm_model_dir a))) (lm_model_name a))
        else bind_err (assert_that (lm_model_name a \<noteq> [])) (\<lambda>_. Inl AttributeError))
       (\<lambda>model_name.
     bind_err (exists_call ev model_name) (\<lambda>b.
     bind_err (assert_that b) (\<lambda>_.
     bind_err (is_dir_call ev model_name) (\<lambda>_.
     let config_json_path = config_json_path_of ev model_name in
     bind_err (exists_call ev config_json_path) (\<lambda>b'.
     bind_err
       (if b' then callee (json_load ev config_json_path) else Inl FileNotFoundError)
       (\<lambda>config_json.
     let feature_caching = feature_caching_of (lm_teacache_args a) in
     bind_err (teacache_thresh_of (lm_teacache_args a)) (\<lambda>teacache_thresh.
     bind_err (kwargs_of config_json) (\<lambda>entries.
     Inr (model_name, device,
          dict_update (config_literal a model_name device dtype feature_caching teacache_thresh)
            entries))))))))))"

text \<open>
  \<^verbatim>\<open>
      model = WanModel(model_name, config, device)
      if lora_path and os.path.exists(lora_path):
          lora_wrapper = WanLoraWrapper(model)
          lora_name = lora_wrapper.load_lora(lora_path)
          lora_wrapper.apply_lora(lora_name, lora_strength)
      wan_model = {"wan_model": model, "config": config}
      return (wan_model,)
  \<close>
  Every exception of \<^verbatim>\<open>load_model\<close> comes before its first effect, so a failed call
  leaves the state as it was.
\<close>

definition load_model :: "env \<Rightarrow> load_model_args \<Rightarrow> state \<Rightarrow> (error + wan_model_output) \<times> state" where
  "load_model ev a st =
     (case load_model_config ev a of
        Inl e \<Rightarrow> (Inl e, st)
      | Inr (model_name, device, cfg) \<Rightarrow>
          let r = next_ref st;
              model = WanModel model_name r device;
              lora_calls =
                (if truthy_str (lm_lora_path a) \<and> os_path_exists ev (the (lm_lora_path a)) then
                   let lora_wrapper = WanLoraWrapper model;
                       lora_name = load_lora lora_wrapper (the (lm_lora_path a))
                   in [lora_wrapper, lora_name, apply_lora lora_wrapper lora_name (lm_lora_strength a)]
                 else [])
          in (Inr \<lparr>wan_model_entry = model, config_entry = r\<rparr>,
              st\<lparr>store := (store st)(r := cfg), next_ref := Suc r,
                 trace := trace st @ model # lora_calls\<rparr>))"

section \<open>Lightx2vWanVideoSampler\<close>

text \<open>
  Reading an attribute of an \<^verbatim>\<open>EasyDict\<close> (\<^verbatim>\<open>model_config.task\<close>) raises
  \<^verbatim>\<open>AttributeError\<close> when the key is missing; \<^verbatim>\<open>d.get(k, default)\<close> on a plain
  dictionary does not raise.
\<close>

definition getattr :: "dict \<Rightarrow> string \<Rightarrow> error + pyval" where
  "getattr d k = (case map_of d k of None \<Rightarrow> Inl AttributeError | Some v \<Rightarrow> Inr v)"

definition dict_get :: "dict \<Rightarrow> string \<Rightarrow> pyval \<Rightarrow> pyval" where
  "dict_get d k dflt = (case map_of d k of None \<Rightarrow> dflt | Some v \<Rightarrow> v)"

text \<open>
  An \<^verbatim>\<open>EasyDict\<close> keeps each key as an attribute of the object too, so a key named like
  a method hides the method: \<^verbatim>\<open>d.update(...)\<close> on an \<^verbatim>\<open>EasyDict\<close> with a key
  \<^verbatim>\<open>update\<close> calls the value of the key, and none of the values here can be called
  (\<^verbatim>\<open>TypeError\<close>). \<open>method_hidden d m\<close> says that \<open>d\<close> has the key \<open>m\<close>.
\<close>

definition method_hidden :: "dict \<Rightarrow> string \<Rightarrow> bool" where
  "method_hidden d m \<longleftrightarrow> map_of d m \<noteq> None"

text \<open>
  The argument of \<^verbatim>\<open>model_config.update(image_config)\<close>. \<^verbatim>\<open>EasyDict.update(e)\<close> is
  \<^verbatim>\<open>d = e or dict(); d.update(f); for k in d: setattr(self, k, d[k])\<close>: \<^verbatim>\<open>None\<close> and
  every other value that counts as false update nothing, a dictionary updates with its
  entries, and a value that counts as true and has no \<^verbatim>\<open>update\<close> is an
  \<^verbatim>\<open>AttributeError\<close>. Whether a float or a tensor counts as true is not modelled. The
  image nodes make their configuration an \<^verbatim>\<open>EasyDict\<close>, so a key \<^verbatim>\<open>update\<close> in it
  hides the method that \<^verbatim>\<open>d.update(f)\<close> calls.
\<close>

fun update_arg :: "pyval \<Rightarrow> error + dict" where
  "update_arg VNone = Inr []"
| "update_arg (VDict c) = Inr c"
| "update_arg (VBool b) = (if b then Inl AttributeError else Inr [])"
| "update_arg (VInt n) = (if n = 0 then Inr [] else Inl AttributeError)"
| "update_arg (VStr s) = (if s = [] then Inr [] else Inl AttributeError)"
| "update_arg (VUStr s) = (if s = [] then Inr [] else Inl AttributeError)"
| "update_arg (VTuple xs) = (if xs = [] then Inr [] else Inl AttributeError)"
| "update_arg (VList xs) = (if xs = [] then Inr [] else Inl AttributeError)"
| "update_arg (VPath p) = Inl AttributeError"
| "update_arg (VDtype d) = Inl AttributeError"
| "update_arg (VFloat x) = Inl OutsideModel"
| "update_arg (VObj x) = Inl OutsideModel"

text \<open>
  An operand of \<^verbatim>\<open>-\<close> or \<^verbatim>\<open>//\<close> whose other operand is an integer: an integer or a
  Boolean is its value; \<^verbatim>\<open>None\<close>, strings, sequences, dictionaries, paths and dtypes
  are a \<^verbatim>\<open>TypeError\<close>; floats and tensors compute something that is not modelled.
\<close>

fun arith_operand :: "pyval \<Rightarrow> error + int" where
  "arith_operand (VInt n) = Inr n"
| "arith_operand (VBool b) = Inr (if b then 1 else 0)"
| "arith_operand (VFloat _) = Inl OutsideModel"
| "arith_operand (VObj _) = Inl OutsideModel"
| "arith_operand _ = Inl TypeError"

text \<open>
  \<^verbatim>\<open>int(x)\<close>; what it makes of a string, a float or a tensor is not modelled, and on
  every other value that is not a number it raises a \<^verbatim>\<open>TypeError\<close>.
\<close>

fun int_conv :: "pyval \<Rightarrow> error + int" where
  "int_conv (VInt n) = Inr n"
| "int_conv (VBool b) = Inr (if b then 1 else 0)"
| "int_conv (VFloat _) = Inl OutsideModel"
| "int_conv (VStr _) = Inl OutsideModel"
| "int_conv (VUStr _) = Inl OutsideModel"
| "int_conv (VObj _) = Inl OutsideModel"
| "int_conv _ = Inl (CalleeError ''TypeError'')"

text \<open>\<^verbatim>\<open>a // b\<close> for an integer \<open>a\<close>: floor division, as \<open>div\<close> on \<open>int\<close> is.\<close>

definition floordiv :: "int \<Rightarrow> pyval \<Rightarrow> error + int" where
  "floordiv a b =
     bind_err (arith_operand b) (\<lambda>d. if d = 0 then Inl ZeroDivisionError else Inr (a div d))"

text \<open>\<^verbatim>\<open>x[i]\<close> for a literal index \<open>i \<ge> 0\<close>.\<close>

fun index :: "pyval \<Rightarrow> nat \<Rightarrow> error + pyval" where
  "index (VTuple xs) i = (if i < length xs then Inr (xs ! i) else Inl IndexError)"
| "index (VList xs) i = (if i < length xs then Inr (xs ! i) else Inl IndexError)"
| "index (VDict _) i = Inl KeyError"
| "index (VStr _) i = Inl OutsideModel"
| "index (VUStr _) i = Inl OutsideModel"
| "index (VObj _) i = Inl OutsideModel"
| "index _ i = Inl TypeError"

text \<open>
  \<^verbatim>\<open>
      # wan_runner.set_target_shape
      num_channels_latents = model_config.get("num_channels_latents", 16)
      if model_config.task == "i2v":
          model_config.target_shape = (
              num_channels_latents,
              (model_config.target_video_length - 1) // model_config.vae_stride[0] + 1,
              model_config.lat_h,
              model_config.lat_w,
          )
      elif model_config.task == "t2v":
          model_config.target_shape = (
              16,
              (model_config.target_video_length - 1) // 4 + 1,
              int(model_config.target_height) // model_config.vae_stride[1],
              int(model_config.target_width) // model_config.vae_stride[2],
          )
  \<close>
\<close>

definition set_target_shape :: "dict \<Rightarrow> error + dict" where
  "set_target_shape mc =
     (if method_hidden mc ''get'' then Inl TypeError else
      let num_channels_latents = dict_get mc ''num_channels_latents'' (VInt 16) in
      bind_err (getattr mc ''task'') (\<lambda>task.
      if task = VStr ''i2v'' then
        bind_err (getattr mc ''target_video_length'') (\<lambda>tvl.
        bind_err (arith_operand tvl) (\<lambda>n.
        bind_err (getattr mc ''vae_stride'') (\<lambda>vs.
        bind_err (index vs 0) (\<lambda>vs0.
        bind_err (floordiv (n - 1) vs0) (\<lambda>q.
        bind_err (getattr mc ''lat_h'') (\<lambda>lat_h.
        bind_err (getattr mc ''lat_w'') (\<lambda>lat_w.
        Inr (AList.update ''target_shape''
               (VTuple [num_channels_latents, VInt (q + 1), lat_h, lat_w]) mc))))))))
      else if task = VStr ''t2v'' then
        bind_err (getattr mc ''target_video_length'') (\<lambda>tvl.
        bind_err (arith_operand tvl) (\<lambda>n.
        bind_err (getattr mc ''target_height'') (\<lambda>th.
        bind_err (int_conv th) (\<lambda>h.
        bind_err (getattr mc ''vae_stride'') (\<lambda>vs.
        bind_err (index vs 1) (\<lambda>vs1.
        bind_err (floordiv h vs1) (\<lambda>qh.
        bind_err (getattr mc ''target_width'') (\<lambda>tw.
        bind_err (int_conv tw) (\<lambda>w.
        bind_err (getattr mc ''vae_stride'') (\<lambda>vs'.
        bind_err (index vs' 2) (\<lambda>vs2.
        bind_err (floordiv w vs2) (\<lambda>qw.
        Inr (AList.update ''target_shape''
               (VTuple [VInt 16, VInt ((n - 1) div 4 + 1), VInt qh, VInt qw]) mc)))))))))))))
      else Inr mc))"

text \<open>
  \<^verbatim>\<open>math.isclose(cfg_scale, 1.0)\<close> takes numbers and raises a \<^verbatim>\<open>TypeError\<close> on every other
  value; what it makes of a tensor is not modelled.
\<close>

fun isclose_call :: "env \<Rightarrow> pyval \<Rightarrow> error + bool" where
  "isclose_call ev (VInt n) = Inr (isclose_one ev (VInt n))"
| "isclose_call ev (VFloat x) = Inr (isclose_one ev (VFloat x))"
| "isclose_call ev (VBool b) = Inr (isclose_one ev (VBool b))"
| "isclose_call ev (VObj x) = Inl OutsideModel"
| "isclose_call ev _ = Inl (CalleeError ''TypeError'')"

text \<open>
  The first part of \<^verbatim>\<open>sample\<close>, which works on the model's configuration object only.
  It returns the contents of the object as the part leaves them, together with the
  exception if one was raised: what was written before a \<^verbatim>\<open>raise\<close> stays written.
  \<^verbatim>\<open>
      model_config = model.get("config")
      image_config = image_embeddings.get("config")
      model_config.update(image_config)
      ...
      clip_encoder_out = image_embeddings.get("clip_encoder_out", None)
      vae_encode_out = image_embeddings.get("vae_encode_out", None)
      if model_config.task == "i2v" and (
          clip_encoder_out is None or vae_encode_out is None
      ):
          raise ValueError("clip_encoder_out must be provided for i2v task")
      model_config.infer_steps = steps
      model_config.sample_shift = shift
      model_config.sample_guide_scale = cfg_scale
      model_config.seed = seed
      model_config.enable_cfg = False if math.isclose(cfg_scale, 1.0) else True
      model_config.offload_granularity = "block"
      (set the target shape)
  \<close>
\<close>

definition sample_config ::
  "env \<Rightarrow> dict \<Rightarrow> int \<Rightarrow> pyval \<Rightarrow> pyval \<Rightarrow> int \<Rightarrow> dict \<Rightarrow> (error + unit) \<times> dict" where
  "sample_config ev image_embeddings steps shift cfg_scale seed mc =
     (if method_hidden mc ''update'' then (Inl TypeError, mc) else
      case update_arg (dict_get image_embeddings ''config'' VNone) of
        Inl e \<Rightarrow> (Inl e, mc)
      | Inr image_config \<Rightarrow>
     if method_hidden image_config ''update'' then (Inl TypeError, mc) else
     let mc1 = dict_update mc image_config;
         clip_encoder_out = dict_get image_embeddings ''clip_encoder_out'' VNone;
         vae_encode_out = dict_get image_embeddings ''vae_encode_out'' VNone
     in
     case getattr mc1 ''task'' of
        Inl e \<Rightarrow> (Inl e, mc1)
      | Inr task \<Rightarrow>
     if task = VStr ''i2v'' \<and> (clip_encoder_out = VNone \<or> vae_encode_out = VNone)
     then (Inl ValueError, mc1)
     else
     let mc1' =
           AList.update ''seed'' (VInt seed)
          (AList.update ''sample_guide_scale'' cfg_scale
          (AList.update ''sample_shift'' shift
          (AList.update ''infer_steps'' (VInt steps) mc1)))
     in
     case isclose_call ev cfg_scale of
        Inl e \<Rightarrow> (Inl e, mc1')
      | Inr close \<Rightarrow>
     let mc2 =
           AList.update ''offload_granularity'' (VStr ''block'')
          (AList.update ''enable_cfg'' (VBool (if close then False else True)) mc1')
     in
     case set_target_shape mc2 of
        Inl e \<Rightarrow> (Inl e, mc2)
      | Inr mc3 \<Rightarrow> (Inr (), mc3))"

text \<open>
  \<^verbatim>\<open>
      # wan_runner.init_scheduler
      if model_config.feature_caching == "NoCaching":
          scheduler = WanScheduler(model_config)
      elif model_config.feature_caching == "Tea":
          scheduler = WanSchedulerTeaCaching(model_config)
      else:
          raise NotImplementedError(...)
  \<close>
  The scheduler is built on the configuration object itself, at address \<open>r\<close>.
\<close>

definition init_scheduler :: "nat \<Rightarrow> dict \<Rightarrow> error + libcall" where
  "init_scheduler r mc =
     bind_err (getattr mc ''feature_caching'') (\<lambda>feature_caching.
     if feature_caching = VStr ''NoCaching'' then Inr (WanScheduler r)
     else if feature_caching = VStr ''Tea'' then Inr (WanSchedulerTeaCaching r)
     else Inl NotImplementedError)"

text \<open>
  \<^verbatim>\<open>
      for step_index in tqdm(range(scheduler.infer_steps), desc="inference", unit="step"):
          with ProfilingContext("scheduler.step_pre"):
              scheduler.step_pre(step_index=step_index)
          with ProfilingContext("model.infer"):
              wan_model.infer(inputs)
          with ProfilingContext("scheduler.step_post"):
              scheduler.step_post()
          progress.update(1)
  \<close>
  The loop runs over the indices of the range, which is evaluated once (\<^verbatim>\<open>range(n)\<close> is
  \<open>0, \<dots>, n - 1\<close>, and empty for \<open>n \<le> 0\<close>), and appends its calls to the trace. \<^verbatim>\<open>tqdm\<close> and \<^verbatim>\<open>ProfilingContext\<close> only report progress and time
  and are left out.
\<close>

definition py_range :: "int \<Rightarrow> int list" where
  "py_range n = map int [0..<nat n]"

primrec sampling_loop :: "libcall \<Rightarrow> libcall \<Rightarrow> pyval \<Rightarrow> int list \<Rightarrow> libcall list \<Rightarrow> libcall list" where
  "sampling_loop scheduler wan_model inputs [] t = t"
| "sampling_loop scheduler wan_model inputs (step_index # rest) t =
     sampling_loop scheduler wan_model inputs rest
       (t @ [step_pre scheduler step_index, infer wan_model inputs, step_post scheduler,
             progress_update])"

text \<open>The dictionary \<^verbatim>\<open>{"samples": ..., "generator": ...}\<close> that \<^verbatim>\<open>sample\<close> returns.\<close>

record latent =
  samples :: pyval
  generator :: pyval

text \<open>
  \<^verbatim>\<open>sample\<close>. The configuration object of the model is updated where it lives, in the
  store; the rest is the sequence of library calls.
  \<^verbatim>\<open>
      wan_model.set_scheduler(scheduler)
      inputs = {"text_encoder_output": text_embeddings,
                "image_encoder_output": image_embeddings}
      scheduler.prepare(inputs.get("image_encoder_output"))
      progress = ProgressBar(steps)
      (the loop)
      scheduler.clear()
      del inputs, wan_model, text_embeddings, image_embeddings
      torch.cuda.empty_cache()
      return ({"samples": scheduler.latents, "generator": scheduler.generator},)
  \<close>
\<close>

definition sample ::
  "env \<Rightarrow> wan_model_output \<Rightarrow> pyval \<Rightarrow> int \<Rightarrow> pyval \<Rightarrow> pyval \<Rightarrow> int \<Rightarrow> dict \<Rightarrow> state
     \<Rightarrow> (error + latent) \<times> state" where
  "sample ev model text_embeddings steps shift cfg_scale seed image_embeddings st =
     (let r = config_entry model;
          (res, mc) = sample_config ev image_embeddings steps shift cfg_scale seed (store st r);
          st1 = st\<lparr>store := (store st)(r := mc)\<rparr>
      in
      case res of
        Inl e \<Rightarrow> (Inl e, st1)
      | Inr _ \<Rightarrow>
      case init_scheduler r mc of
        Inl e \<Rightarrow> (Inl e, st1)
      | Inr scheduler \<Rightarrow>
      let wan_model = wan_model_entry model;
          inputs = VDict [(''text_encoder_output'', text_embeddings),
                          (''image_encoder_output'', VDict image_embeddings)];
          t1 = trace st1 @ [scheduler, set_scheduler wan_model scheduler,
                            prepare scheduler (VDict image_embeddings), ProgressBar steps];
          t2 = sampling_loop scheduler wan_model inputs (py_range (sched_infer_steps ev t1)) t1;
          t3 = t2 @ [clear scheduler, empty_cache]
      in (Inr \<lparr>samples = sched_latents ev t3, generator = sched_generator ev t3\<rparr>,
          st1\<lparr>trace := t3\<rparr>))"

text \<open>The library calls that construct a scheduler.\<close>

fun is_scheduler_construction :: "libcall \<Rightarrow> bool" where
  "is_scheduler_construction (WanScheduler r) = True"
| "is_scheduler_construction (WanSchedulerTeaCaching r) = True"
| "is_scheduler_construction _ = False"

section \<open>Lightx2vWanVideoT5Encoder\<close>



section \<open>Lightx2vWanVideoVaeDecoder\<close>













section \<open>Node registration\<close>

text \<open>
  What the host reads of a node class: the class attributes \<^verbatim>\<open>RETURN_TYPES\<close>,
  \<^verbatim>\<open>RETURN_NAMES\<close>, \<^verbatim>\<open>FUNCTION\<close> and \<^verbatim>\<open>CATEGORY\<close>, and the methods that the class
  body defines (\<open>methods\<close>, in the order of the \<^verbatim>\<open>def\<close>s).
\<close>

record node_class =
  RETURN_TYPES :: "string list"
  RETURN_NAMES :: "string list"
  FUNCTION :: string
  CATEGORY :: string
  methods :: "string list"

definition WanVideoTeaCache_class :: node_class where
  "WanVideoTeaCache_class =
     \<lparr>RETURN_TYPES = [''LIGHT_TEACACHEARGS''], RETURN_NAMES = [''teacache_args''],
      FUNCTION = ''process'', CATEGORY = ''LightX2V'',
      methods = [''INPUT_TYPES'', ''process'']\<rparr>"

definition Lightx2vWanVideoModelDir_class :: node_class where
  "Lightx2vWanVideoModelDir_class =
     \<lparr>RETURN_TYPES = [''STRING''], RETURN_NAMES = [''STRING''],
      FUNCTION = ''process'', CATEGORY = ''LightX2V'',
      methods = [''INPUT_TYPES'', ''process'']\<rparr>"

definition Lightx2vWanVideoT5EncoderLoader_class :: node_class where
  "Lightx2vWanVideoT5EncoderLoader_class =
     \<lparr>RETURN_TYPES = [''LIGHT_T5_ENCODER''], RETURN_NAMES = [''t5_encoder''],
      FUNCTION = ''load_t5_encoder'', CATEGORY = ''LightX2V'',
      methods = [''INPUT_TYPES'', ''load_t5_encoder'']\<rparr>"

definition Lightx2vWanVideoT5Encoder_class :: node_class where
  "Lightx2vWanVideoT5Encoder_class =
     \<lparr>RETURN_TYPES = [''LIGHT_TEXT_EMBEDDINGS''], RETURN_NAMES = [''text_embeddings''],
      FUNCTION = ''encode_text'', CATEGORY = ''LightX2V'',
      methods = [''INPUT_TYPES'', ''encode_text'']\<rparr>"

definition Lightx2vWanVideoVaeLoader_class :: node_class where
  "Lightx2vWanVideoVaeLoader_class =
     \<lparr>RETURN_TYPES = [''LIGHT_WAN_VAE''], RETURN_NAMES = [''wan_vae''],
      FUNCTION = ''load_vae'', CATEGORY = ''LightX2V'',
      methods = [''INPUT_TYPES'', ''load_vae'']\<rparr>"

definition Lightx2vWanVideoVaeDecoder_class :: node_class where
  "Lightx2vWanVideoVaeDecoder_class =
     \<lparr>RETURN_TYPES = [''IMAGE''], RETURN_NAMES = [''images''],
      FUNCTION = ''decode_latent'', CATEGORY = ''LightX2V'',
      methods = [''INPUT_TYPES'', ''decode_latent'']\<rparr>"

definition Lightx2vWanVideoClipVisionEncoderLoader_class :: node_class where
  "Lightx2vWanVideoClipVisionEncoderLoader_class =
     \<lparr>RETURN_TYPES = [''LIGHT_CLIP_VISION_ENCODER''], RETURN_NAMES = [''clip_vision_encoder''],
      FUNCTION = ''load_clip_vision_encoder'', CATEGORY = ''LightX2V'',
      methods = [''INPUT_TYPES'', ''load_clip_vision_encoder'']\<rparr>"

definition Lightx2vWanVideoImageEncoder_class :: node_class where
  "Lightx2vWanVideoImageEncoder_class =
     \<lparr>RETURN_TYPES = [''LIGHT_IMAGE_EMBEDDINGS''], RETURN_NAMES = [''image_embeddings''],
      FUNCTION = ''encode_image'', CATEGORY = ''LightX2V'',
      methods = [''INPUT_TYPES'', ''encode_image'']\<rparr>"

definition Lightx2vWanVideoEmptyEmbeds_class :: node_class where
  "Lightx2vWanVideoEmptyEmbeds_class =
     \<lparr>RETURN_TYPES = [''LIGHT_IMAGE_EMBEDDINGS''], RETURN_NAMES = [''image_embeddings''],
      FUNCTION = ''process'', CATEGORY = ''LightX2V'',
      methods = [''INPUT_TYPES'', ''process'']\<rparr>"

definition Lightx2vWanVideoModelLoader_class :: node_class where
  "Lightx2vWanVideoModelLoader_class =
     \<lparr>RETURN_TYPES = [''LIGHT_WAN_MODEL''], RETURN_NAMES = [''wan_model''],
      FUNCTION = ''load_model'', CATEGORY = ''LightX2V'',
      methods = [''INPUT_TYPES'', ''load_model'']\<rparr>"

definition Lightx2vWanVideoSampler_class :: node_class where
  "Lightx2vWanVideoSampler_class =
     \<lparr>RETURN_TYPES = [''LIGHT_LATENT''], RETURN_NAMES = [''latent''],
      FUNCTION = ''sample'', CATEGORY = ''LightX2V'',
      methods = [''INPUT_TYPES'', ''sample'']\<rparr>"

text \<open>The registry that the host imports.\<close>

definition NODE_CLASS_MAPPINGS :: "(string \<times> node_class) list" where
  "NODE_CLASS_MAPPINGS =
     [(''Lightx2vWanVideoModelDir'', Lightx2vWanVideoModelDir_class),
      (''Lightx2vWanVideoT5EncoderLoader'', Lightx2vWanVideoT5EncoderLoader_class),
      (''Lightx2vWanVideoT5Encoder'', Lightx2vWanVideoT5Encoder_class),
      (''Lightx2vWanVideoClipVisionEncoderLoader'', Lightx2vWanVideoClipVisionEncoderLoader_class),
      (''Lightx2vWanVideoVaeLoader'', Lightx2vWanVideoVaeLoader_class),
      (''Lightx2vTeaCache'', WanVideoTeaCache_class),
      (''Lightx2vWanVideoEmptyEmbeds'', Lightx2vWanVideoEmptyEmbeds_class),
      (''Lightx2vWanVideoImageEncoder'', Lightx2vWanVideoImageEncoder_class),
      (''Lightx2vWanVideoVaeDecoder'', Lightx2vWanVideoVaeDecoder_class),
      (''Lightx2vWanVideoModelLoader'', Lightx2vWanVideoModelLoader_class),
      (''Lightx2vWanVideoSampler'', Lightx2vWanVideoSampler_class)]"

section \<open>The node operations as the host calls them\<close>





section \<open>A concrete installation\<close>

text \<open>
  An environment to run the operations in: a model directory \<^verbatim>\<open>/models/wan\<close> with its
  \<^verbatim>\<open>config.json\<close>, a directory \<^verbatim>\<open>/models/bare\<close> without one, an operating system that
  refuses a path of more than 255 characters, and a scheduler that reports two inference
  steps.
\<close>

definition example_env :: env where
  "example_env =
     \<lparr>truediv = (\<lambda>p s. case p of Path d \<Rightarrow> if s = [] then Path d else Path (d @ ''/'' @ s)),
      parent = (\<lambda>p. Path ''/models''),
      path_exists = (\<lambda>p. p \<in> set [Path ''/models/wan'', Path ''/models/wan/config.json'',
                                     Path ''/models/bare'']),
      is_dir = (\<lambda>p. p \<in> set [Path ''/models/wan'', Path ''/models/bare'']),
      stat_error = (\<lambda>p. case p of Path d \<Rightarrow> if 255 < length d then Some ''OSError'' else None),
      os_path_exists = (\<lambda>s. False),
      json_load = (\<lambda>p. Inr (VDict [(''dim'', VInt 5120)])),
      path_str = (\<lambda>p. case p of Path d \<Rightarrow> d),
      get_torch_device = VObj 0,
      unet_offload_device = VObj 1,
      cpu_device = VObj 2,
      isclose_one = (\<lambda>v. v = VFloat ''1.0''),
      t5_infer = (\<lambda>e ps. VList [VObj 30]),
      clip_visual = (\<lambda>c i. 10),
      image_hw = (\<lambda>i. (480, 832)),
      latent_size = (\<lambda>h w a. Inr (VInt 60, VInt 104)),
      vae_encode = (\<lambda>v i c. 11),
      sched_infer_steps = (\<lambda>t. 2),
      sched_latents = (\<lambda>t. VObj 20),
      sched_generator = (\<lambda>t. VObj 21)\<rparr>"

text \<open>A name of 300 characters, which this operating system refuses.\<close>

definition example_long_name :: string where
  "example_long_name = replicate 300 CHR ''a''"

text \<open>The same installation with a \<^verbatim>\<open>config.json\<close> that sets a caching mode and a dtype flag.\<close>

definition example_override_env :: env where
  "example_override_env =
     example_env\<lparr>json_load :=
       (\<lambda>p. Inr (VDict [(''feature_caching'', VStr ''TaylorSeer''),
                         (''use_bfloat16'', VBool False)]))\<rparr>"

definition example_state :: state where
  "example_state = \<lparr>store = (\<lambda>r. []), next_ref = 0, trace = []\<rparr>"

text \<open>Widget values for \<^verbatim>\<open>load_model\<close>: a text-to-video model in \<^verbatim>\<open>/models/wan\<close>.\<close>

definition example_args :: load_model_args where
  "example_args =
     \<lparr>lm_model_name = [], lm_model_type = ''t2v'', lm_precision = ''bf16'',
      lm_device = ''cuda'', lm_attention_type = ''flash_attn3'', lm_mm_type = ''Default'',
      lm_lora_path = None, lm_lora_strength = VFloat ''1.0'', lm_cpu_offload = False,
      lm_teacache_args = None, lm_model_dir = Some ''/models/wan''\<rparr>"

text \<open>
  The model dictionary and the state that \<^verbatim>\<open>load_model\<close> produces from these values:
  the configuration object is at address \<open>0\<close>.
\<close>

definition example_config :: dict where
  "example_config =
     dict_update
       (config_literal example_args (Path ''/models/wan'') (VObj 0) bfloat16 ''NoCaching''
          (VFloat ''0.26''))
       [(''dim'', VInt 5120)]"

definition example_model :: wan_model_output where
  "example_model =
     \<lparr>wan_model_entry = WanModel (Path ''/models/wan'') 0 (VObj 0), config_entry = 0\<rparr>"

definition example_loaded :: state where
  "example_loaded =
     \<lparr>store = (\<lambda>r. [])(0 := example_config), next_ref = 1,
      trace = [WanModel (Path ''/models/wan'') 0 (VObj 0)]\<rparr>"

text \<open>
  Inputs for \<^verbatim>\<open>sample\<close>: the embeddings of the empty-embeds node for 81 frames of
  832 by 480.
\<close>

definition example_embeds :: dict where
  "example_embeds = Lightx2vWanVideoEmptyEmbeds_process 81 832 480"

text \<open>
  The configuration object, the state and the result after \<^verbatim>\<open>sample\<close> has run on this
  model with the empty embeddings, 20 steps, shift 5.0, guidance scale 5.0 and seed 42.
\<close>

definition example_sampled_config :: dict where
  "example_sampled_config =
     [(''do_mm_calib'', VBool False), (''cpu_offload'', VBool False),
      (''parallel_attn_type'', VNone), (''parallel_vae'', VBool False),
      (''max_area'', VBool False),
      (''vae_stride'', VTuple [VInt 4, VInt 8, VInt 8]),
      (''patch_size'', VTuple [VInt 1, VInt 2, VInt 2]),
      (''feature_caching'', VStr ''NoCaching''),
      (''teacache_thresh'', VFloat ''0.26''), (''use_ret_steps'', VBool False),
      (''use_bfloat16'', VBool True),
      (''mm_config'',
       VDict [(''mm_type'', VStr ''Default''), (''weight_auto_quant'', VBool False)]),
      (''model_path'', VPath (Path ''/models/wan'')), (''task'', VStr ''t2v''),
      (''model_cls'', VStr ''wan2.1''), (''device'', VObj 0),
      (''attention_type'', VStr ''flash_attn3''), (''lora_path'', VNone),
      (''strength_model'', VFloat ''1.0''), (''dim'', VInt 5120),
      (''target_height'', VInt 480), (''target_width'', VInt 832),
      (''target_video_length'', VInt 81), (''infer_steps'', VInt 20),
      (''sample_shift'', VFloat ''5.0''),
      (''sample_guide_scale'', VFloat ''5.0''), (''seed'', VInt 42),
      (''enable_cfg'', VBool True), (''offload_granularity'', VStr ''block''),
      (''target_shape'', VTuple [VInt 16, VInt 21, VInt 60, VInt 104])]"

definition example_inputs :: pyval where
  "example_inputs =
     VDict [(''text_encoder_output'', VObj 5), (''image_encoder_output'', VDict example_embeds)]"

definition example_sampled :: state where
  "example_sampled =
     \<lparr>store = (\<lambda>r. [])(0 := example_sampled_config), next_ref = 1,
      trace =
        [WanModel (Path ''/models/wan'') 0 (VObj 0),
         WanScheduler 0,
         set_scheduler (WanModel (Path ''/models/wan'') 0 (VObj 0)) (WanScheduler 0),
         prepare (WanScheduler 0) (VDict example_embeds),
         ProgressBar 20,
         step_pre (WanScheduler 0) 0,
         infer (WanModel (Path ''/models/wan'') 0 (VObj 0)) example_inputs,
         step_post (WanScheduler 0),
         progress_update,
         step_pre (WanScheduler 0) 1,
         infer (WanModel (Path ''/models/wan'') 0 (VObj 0)) example_inputs,
         step_post (WanScheduler 0),
         progress_update,
         clear (WanScheduler 0),
         empty_cache]\<rparr>"

definition example_latent :: latent where
  "example_latent = \<lparr>samples = VObj 20, generator = VObj 21\<rparr>"

text \<open>The same installation holding an image-to-video model.\<close>

definition example_i2v_args :: load_model_args where
  "example_i2v_args = example_args\<lparr>lm_model_type := ''i2v''\<rparr>"

definition example_i2v_config :: dict where
  "example_i2v_config =
     dict_update
       (config_literal example_i2v_args (Path ''/models/wan'') (VObj 0) bfloat16 ''NoCaching''
          (VFloat ''0.26''))
       [(''dim'', VInt 5120)]"

definition example_i2v_loaded :: state where
  "example_i2v_loaded =
     \<lparr>store = (\<lambda>r. [])(0 := example_i2v_config), next_ref = 1,
      trace = [WanModel (Path ''/models/wan'') 0 (VObj 0)]\<rparr>"


text \<open>
  The loaded state when \<^verbatim>\<open>config.json\<close> asks for a caching mode that the sampler does
  not know.
\<close>

definition example_taylor_loaded :: state where
  "example_taylor_loaded =
     example_loaded\<lparr>store := (\<lambda>r. [])
       (0 := AList.update ''feature_caching'' (VStr ''TaylorSeer'') example_config)\<rparr>"




section \<open>Properties\<close>

lemma example_long_name_length: "length example_long_name = 300"
  by (simp add: example_long_name_def)

lemma example_long_name_slash: "example_long_name \<noteq> CHR ''/'' # s"
proof
  assume "example_long_name = CHR ''/'' # s"
  then have "hd example_long_name = hd (CHR ''/'' # s)"
    by (rule arg_cong)
  moreover have "hd example_long_name = CHR ''a''"
    by (simp add: example_long_name_def)
  ultimately show False
    by simp
qed

lemma example_long_name_exists:
  "stat_error example_env (Path example_long_name) = Some ''OSError''"
  "\<not> path_exists example_env (Path example_long_name)"
  by (simp_all add: example_env_def example_long_name_length example_long_name_slash)

text \<open>
  C5, amended. \<^verbatim>\<open>Lightx2vWanVideoModelDir.process\<close> raises an
  \<^verbatim>\<open>AssertionError\<close> if and only if \<^verbatim>\<open>Path(model_dir).exists()\<close> returns \<^verbatim>\<open>False\<close>, that
  is, the operating system lets the path be looked at and nothing is there. It returns,
  and then the \<^verbatim>\<open>model_dir\<close> string unchanged, if and only if \<^verbatim>\<open>exists()\<close> returns
  \<^verbatim>\<open>True\<close>. When the operating system refuses to look at the path, the error that
  \<^verbatim>\<open>exists()\<close> raises passes through \<^verbatim>\<open>process\<close>; it raises nothing else.
\<close>

theorem model_dir_process_spec:
  "(Lightx2vWanVideoModelDir_process ev model_dir = Inl AssertionError
      \<longleftrightarrow> stat_error ev (Path model_dir) = None \<and> \<not> path_exists ev (Path model_dir))
   \<and> (\<forall>s. Lightx2vWanVideoModelDir_process ev model_dir = Inr s
      \<longleftrightarrow> s = model_dir \<and> stat_error ev (Path model_dir) = None
          \<and> path_exists ev (Path model_dir))
   \<and> (\<forall>c. Lightx2vWanVideoModelDir_process ev model_dir = Inl (CalleeError c)
      \<longleftrightarrow> stat_error ev (Path model_dir) = Some c)
   \<and> (\<forall>e. Lightx2vWanVideoModelDir_process ev model_dir = Inl e
      \<longrightarrow> e = AssertionError \<or> (\<exists>c. e = CalleeError c))"
  by (auto simp add: Lightx2vWanVideoModelDir_process_def exists_call_def bind_err_def
      assert_that_def split: option.splits)

theorem model_dir_process_spec_witness:
  "Lightx2vWanVideoModelDir_process example_env ''/models/wan'' = Inr ''/models/wan''
   \<and> Lightx2vWanVideoModelDir_process example_env ''/models/none'' = Inl AssertionError
   \<and> Lightx2vWanVideoModelDir_process example_env example_long_name
       = Inl (CalleeError ''OSError'')"
  using model_dir_process_spec [of example_env "''/models/wan''"]
    model_dir_process_spec [of example_env "''/models/none''"]
    model_dir_process_spec [of example_env example_long_name]
    example_long_name_exists
  by (simp add: example_env_def)

text \<open>
  C5, as stated, fails on a name that the operating system refuses:
  nothing exists at the path, and \<^verbatim>\<open>process\<close> ends with the \<^verbatim>\<open>OSError\<close> of
  \<^verbatim>\<open>Path.exists\<close>, not with an \<^verbatim>\<open>AssertionError\<close>.
\<close>

theorem model_dir_process_counterexample:
  "\<not> path_exists example_env (Path example_long_name)
   \<and> Lightx2vWanVideoModelDir_process example_env example_long_name
       = Inl (CalleeError ''OSError'')
   \<and> Lightx2vWanVideoModelDir_process example_env example_long_name \<noteq> Inl AssertionError"
  using example_long_name_exists
  by (simp add: Lightx2vWanVideoModelDir_process_def exists_call_def bind_err_def
      assert_that_def)
text \<open>
  C8. Every node class registered in \<^verbatim>\<open>NODE_CLASS_MAPPINGS\<close> satisfies the host's
  registration convention: it defines a non-empty \<^verbatim>\<open>RETURN_TYPES\<close> tuple of type tags, a
  \<^verbatim>\<open>FUNCTION\<close> attribute naming a method that the class defines, and a \<^verbatim>\<open>CATEGORY\<close>
  attribute equal to \<^verbatim>\<open>"LightX2V"\<close>.
\<close>

theorem node_class_mappings_registered:
  "\<forall>(name, c) \<in> set NODE_CLASS_MAPPINGS.
     RETURN_TYPES c \<noteq> [] \<and> FUNCTION c \<in> set (methods c) \<and> CATEGORY c = ''LightX2V''"
  unfolding NODE_CLASS_MAPPINGS_def
  by (simp add: WanVideoTeaCache_class_def Lightx2vWanVideoModelDir_class_def
      Lightx2vWanVideoT5EncoderLoader_class_def Lightx2vWanVideoT5Encoder_class_def
      Lightx2vWanVideoVaeLoader_class_def Lightx2vWanVideoVaeDecoder_class_def
      Lightx2vWanVideoClipVisionEncoderLoader_class_def Lightx2vWanVideoImageEncoder_class_def
      Lightx2vWanVideoEmptyEmbeds_class_def Lightx2vWanVideoModelLoader_class_def
      Lightx2vWanVideoSampler_class_def)

theorem node_class_mappings_registered_witness:
  "(''Lightx2vTeaCache'', WanVideoTeaCache_class) \<in> set NODE_CLASS_MAPPINGS
   \<and> RETURN_TYPES WanVideoTeaCache_class = [''LIGHT_TEACACHEARGS'']
   \<and> FUNCTION WanVideoTeaCache_class \<in> set (methods WanVideoTeaCache_class)
   \<and> CATEGORY WanVideoTeaCache_class = ''LightX2V''"
proof -
  have m: "(''Lightx2vTeaCache'', WanVideoTeaCache_class) \<in> set NODE_CLASS_MAPPINGS"
    by (simp add: NODE_CLASS_MAPPINGS_def)
  from node_class_mappings_registered m
  have "FUNCTION WanVideoTeaCache_class \<in> set (methods WanVideoTeaCache_class)
        \<and> CATEGORY WanVideoTeaCache_class = ''LightX2V''"
    by blast
  with m show ?thesis by (simp add: WanVideoTeaCache_class_def)
qed

text \<open>
  C9. The required input names that \<^verbatim>\<open>WanVideoTeaCache.INPUT_TYPES\<close> declares include
  \<^verbatim>\<open>start_percent\<close> and \<^verbatim>\<open>end_percent\<close>, but \<^verbatim>\<open>WanVideoTeaCache.process\<close> has no
  parameters of those names (its parameters are \<^verbatim>\<open>start_step\<close> and \<^verbatim>\<open>end_step\<close>), so
  every invocation of \<^verbatim>\<open>process\<close> with keyword arguments named after the declared
  required inputs (with or without the optional one) fails with a \<^verbatim>\<open>TypeError\<close> instead
  of returning a dictionary.
\<close>

theorem teacache_declared_inputs_type_error:
  "{''start_percent'', ''end_percent''} \<subseteq> fst ` set (required WanVideoTeaCache_INPUT_TYPES)
   \<and> {''start_percent'', ''end_percent''} \<inter> fst ` set WanVideoTeaCache_process_signature = {}
   \<and> {''start_step'', ''end_step''} \<subseteq> fst ` set WanVideoTeaCache_process_signature
   \<and> (\<forall>kwargs. fst ` set (required WanVideoTeaCache_INPUT_TYPES) \<subseteq> fst ` set kwargs
        \<longrightarrow> WanVideoTeaCache_call ev kwargs = Inl TypeError)"
proof (intro conjI allI impI)
  show "{''start_percent'', ''end_percent''} \<subseteq> fst ` set (required WanVideoTeaCache_INPUT_TYPES)"
    by (simp add: WanVideoTeaCache_INPUT_TYPES_def)
  show "{''start_percent'', ''end_percent''} \<inter> fst ` set WanVideoTeaCache_process_signature = {}"
    by (simp add: WanVideoTeaCache_process_signature_def)
  show "{''start_step'', ''end_step''} \<subseteq> fst ` set WanVideoTeaCache_process_signature"
    by (simp add: WanVideoTeaCache_process_signature_def)
next
  fix kwargs :: dict
  assume sub: "fst ` set (required WanVideoTeaCache_INPUT_TYPES) \<subseteq> fst ` set kwargs"
  have "''start_percent'' \<in> fst ` set (required WanVideoTeaCache_INPUT_TYPES)"
    by (simp add: WanVideoTeaCache_INPUT_TYPES_def)
  with sub have "''start_percent'' \<in> fst ` set kwargs"
    by (rule subsetD)
  then obtain v where v: "(''start_percent'', v) \<in> set kwargs"
    by auto
  have "''start_percent'' \<notin> set (map fst WanVideoTeaCache_process_signature)"
    by (simp add: WanVideoTeaCache_process_signature_def)
  with v have "list_ex (\<lambda>(k, _). k \<notin> set (map fst WanVideoTeaCache_process_signature)) kwargs"
    unfolding list_ex_iff by (intro bexI [of _ "(''start_percent'', v)"]) simp_all
  then show "WanVideoTeaCache_call ev kwargs = Inl TypeError"
    by (simp add: WanVideoTeaCache_call_def bind_kwargs_def bind_err_def)
qed

theorem teacache_declared_inputs_type_error_witness:
  "fst ` set (required WanVideoTeaCache_INPUT_TYPES)
     \<subseteq> fst ` set [(''rel_l1_thresh'', VFloat ''0.26''), (''start_percent'', VFloat ''0.1''),
                  (''end_percent'', VFloat ''1.0''), (''cache_device'', VStr ''offload_device''),
                  (''coefficients'', VStr ''i2v-14B-720p'')]
   \<and> WanVideoTeaCache_call example_env
        [(''rel_l1_thresh'', VFloat ''0.26''), (''start_percent'', VFloat ''0.1''),
         (''end_percent'', VFloat ''1.0''), (''cache_device'', VStr ''offload_device''),
         (''coefficients'', VStr ''i2v-14B-720p'')] = Inl TypeError"
proof -
  have k: "fst ` set (required WanVideoTeaCache_INPUT_TYPES)
     \<subseteq> fst ` set [(''rel_l1_thresh'', VFloat ''0.26''), (''start_percent'', VFloat ''0.1''),
                  (''end_percent'', VFloat ''1.0''), (''cache_device'', VStr ''offload_device''),
                  (''coefficients'', VStr ''i2v-14B-720p'')]"
    by (simp add: WanVideoTeaCache_INPUT_TYPES_def)
  note t = teacache_declared_inputs_type_error [of example_env, THEN conjunct2, THEN conjunct2,
      THEN conjunct2, rule_format]
  from k t [OF k] show ?thesis
    by (rule conjI)
qed

text \<open>
  C10. \<^verbatim>\<open>load_t5_encoder\<close> performs its path-existence assertions on the checkpoint
  and tokenizer paths only when \<^verbatim>\<open>model_dir\<close> is not provided. For every call where
  \<^verbatim>\<open>model_dir\<close> is a non-empty string (and the precision is one the widget offers), the
  assembled checkpoint and tokenizer paths are passed to the T5 encoder constructor, and
  the result is the same whatever exists in the file system and whatever the operating
  system refuses to look at. Without \<^verbatim>\<open>model_dir\<close> the call fails with
  \<^verbatim>\<open>AssertionError\<close> exactly when \<^verbatim>\<open>exists()\<close> returns \<^verbatim>\<open>False\<close> for the checkpoint, or
  \<^verbatim>\<open>True\<close> for the checkpoint and \<^verbatim>\<open>False\<close> for the tokenizer path.
\<close>

theorem load_t5_encoder_checks_only_without_model_dir:
  "(truthy_str model_dir \<longrightarrow>
      (\<forall>dtype. map_of dtype_map precision = Some dtype \<longrightarrow>
         load_t5_encoder ev model_name precision device model_dir =
           Inr (T5EncoderModel 512 dtype (resolve_device ev device)
                  (truediv ev (Path (the model_dir)) model_name)
                  (truediv ev (truediv ev (Path (the model_dir)) ''google'') ''umt5-xxl'')))
      \<and> (\<forall>f. load_t5_encoder (ev\<lparr>path_exists := f\<rparr>) model_name precision device model_dir =
               load_t5_encoder ev model_name precision device model_dir)
      \<and> (\<forall>g. load_t5_encoder (ev\<lparr>stat_error := g\<rparr>) model_name precision device model_dir =
               load_t5_encoder ev model_name precision device model_dir))
   \<and> (\<not> truthy_str model_dir \<longrightarrow> map_of dtype_map precision \<noteq> None \<longrightarrow>
        (load_t5_encoder ev model_name precision device model_dir = Inl AssertionError
           \<longleftrightarrow> exists_call ev (Path model_name) = Inr False
               \<or> exists_call ev (Path model_name) = Inr True
                 \<and> exists_call ev
                     (truediv ev (truediv ev (parent ev (Path model_name)) ''google'') ''umt5-xxl'')
                    = Inr False))"
proof (intro conjI impI allI)
  fix dtype
  assume "truthy_str model_dir" and "map_of dtype_map precision = Some dtype"
  then show "load_t5_encoder ev model_name precision device model_dir =
      Inr (T5EncoderModel 512 dtype (resolve_device ev device)
             (truediv ev (Path (the model_dir)) model_name)
             (truediv ev (truediv ev (Path (the model_dir)) ''google'') ''umt5-xxl''))"
    by (simp add: load_t5_encoder_def subscript_def bind_err_def Let_def)
next
  fix f
  assume "truthy_str model_dir"
  then show "load_t5_encoder (ev\<lparr>path_exists := f\<rparr>) model_name precision device model_dir =
      load_t5_encoder ev model_name precision device model_dir"
    by (simp add: load_t5_encoder_def subscript_def bind_err_def resolve_device_def Let_def
        split: option.split)
next
  fix g
  assume "truthy_str model_dir"
  then show "load_t5_encoder (ev\<lparr>stat_error := g\<rparr>) model_name precision device model_dir =
      load_t5_encoder ev model_name precision device model_dir"
    by (simp add: load_t5_encoder_def subscript_def bind_err_def resolve_device_def Let_def
        split: option.split)
next
  assume n: "\<not> truthy_str model_dir" and "map_of dtype_map precision \<noteq> None"
  then obtain dtype where d: "map_of dtype_map precision = Some dtype"
    by auto
  show "load_t5_encoder ev model_name precision device model_dir = Inl AssertionError
      \<longleftrightarrow> exists_call ev (Path model_name) = Inr False
          \<or> exists_call ev (Path model_name) = Inr True
            \<and> exists_call ev
                (truediv ev (truediv ev (parent ev (Path model_name)) ''google'') ''umt5-xxl'')
               = Inr False"
  proof (cases "exists_call ev (Path model_name)")
    case (Inl e)
    then have "\<exists>c. e = CalleeError c"
      by (auto simp add: exists_call_def split: option.splits)
    with Inl n d show ?thesis
      by (auto simp add: load_t5_encoder_def subscript_def bind_err_def Let_def)
  next
    case (Inr b)
    show ?thesis
    proof (cases "exists_call ev
        (truediv ev (truediv ev (parent ev (Path model_name)) ''google'') ''umt5-xxl'')")
      case (Inl e)
      then have "\<exists>c. e = CalleeError c"
        by (auto simp add: exists_call_def split: option.splits)
      with Inl Inr n d show ?thesis
        by (auto simp add: load_t5_encoder_def subscript_def bind_err_def assert_that_def Let_def)
    next
      case b': (Inr b')
      with Inr n d show ?thesis
        by (auto simp add: load_t5_encoder_def subscript_def bind_err_def assert_that_def Let_def)
    qed
  qed
qed

theorem load_t5_encoder_checks_only_without_model_dir_witness:
  "truthy_str (Some ''/models/none'')
   \<and> map_of dtype_map ''bf16'' = Some bfloat16
   \<and> \<not> path_exists example_env (Path ''/models/none/models_t5_umt5-xxl-enc-bf16.pth'')
   \<and> load_t5_encoder example_env ''models_t5_umt5-xxl-enc-bf16.pth'' ''bf16'' ''cuda''
        (Some ''/models/none'') =
      Inr (T5EncoderModel 512 bfloat16 (VObj 0)
             (Path ''/models/none/models_t5_umt5-xxl-enc-bf16.pth'')
             (Path ''/models/none/google/umt5-xxl''))
   \<and> \<not> truthy_str None
   \<and> load_t5_encoder example_env ''models_t5_umt5-xxl-enc-bf16.pth'' ''bf16'' ''cuda'' None =
      Inl AssertionError"
proof -
  have t: "truthy_str (Some ''/models/none'')" and n: "\<not> truthy_str None"
    and d: "map_of dtype_map ''bf16'' = Some bfloat16"
    by (simp_all add: dtype_map_def)
  have d': "map_of dtype_map ''bf16'' \<noteq> None"
    using d by simp
  note a = load_t5_encoder_checks_only_without_model_dir
    [of "Some ''/models/none''" "''bf16''" example_env "''models_t5_umt5-xxl-enc-bf16.pth''" "''cuda''",
      THEN conjunct1, rule_format, OF t, THEN conjunct1, rule_format, OF d]
  note b = load_t5_encoder_checks_only_without_model_dir
    [of None "''bf16''" example_env "''models_t5_umt5-xxl-enc-bf16.pth''" "''cuda''",
      THEN conjunct2, rule_format, OF n d']
  have e: "exists_call example_env (Path ''models_t5_umt5-xxl-enc-bf16.pth'') = Inr False"
    by (simp add: example_env_def exists_call_def)
  from e b have c: "load_t5_encoder example_env ''models_t5_umt5-xxl-enc-bf16.pth'' ''bf16'' ''cuda'' None =
      Inl AssertionError"
    by simp
  show ?thesis
    using t n d c a by (simp add: example_env_def resolve_device_def)
qed

section \<open>Facts about sequencing and dictionaries\<close>

lemma bind_err_Inr: "bind_err x f = Inr y \<longleftrightarrow> (\<exists>v. x = Inr v \<and> f v = Inr y)"
  by (cases x) (simp_all add: bind_err_def)


lemma assert_that_Inr: "assert_that b = Inr u \<longleftrightarrow> b"
  by (simp add: assert_that_def)

lemma assert_that_Inl: "assert_that b = Inl e \<longleftrightarrow> \<not> b \<and> e = AssertionError"
  by (auto simp add: assert_that_def)

lemma callee_Inr: "callee r = Inr v \<longleftrightarrow> r = Inr v"
  by (cases r) (simp_all add: callee_def)


lemma exists_call_Inl: "exists_call ev p = Inl e \<longleftrightarrow> (\<exists>c. stat_error ev p = Some c \<and> e = CalleeError c)"
  by (auto simp add: exists_call_def split: option.splits)

lemma exists_call_Inr: "exists_call ev p = Inr b \<longleftrightarrow> stat_error ev p = None \<and> b = path_exists ev p"
  by (auto simp add: exists_call_def split: option.splits)

lemma is_dir_call_Inl: "is_dir_call ev p = Inl e \<longleftrightarrow> exists_call ev p = Inl e"
  by (auto simp add: exists_call_def is_dir_call_def split: option.splits)

lemma kwargs_of_Inr: "kwargs_of v = Inr d \<longleftrightarrow> v = VDict d"
  by (cases v) simp_all


lemma subscript_Inr: "subscript d k = Inr v \<longleftrightarrow> map_of d k = Some v"
  by (simp add: subscript_def split: option.splits)


lemma map_of_dict_update:
  "map_of (dict_update d e) k =
     (case map_of (rev e) k of Some v \<Rightarrow> Some v | None \<Rightarrow> map_of d k)"
proof (induction e arbitrary: d)
  case Nil
  show ?case by (simp add: dict_update_def)
next
  case (Cons x e)
  obtain k' v' where x: "x = (k', v')" by (cases x)
  have "dict_update d (x # e) = dict_update (AList.update k' v' d) e"
    by (simp add: dict_update_def x)
  then show ?case
    using Cons.IH [of "AList.update k' v' d"]
    by (simp add: x update_conv' map_add_def split: option.split)
qed

lemma map_of_dict_update_other:
  assumes "k \<notin> fst ` set e"
  shows "map_of (dict_update d e) k = map_of d k"
proof -
  from assms have "k \<notin> fst ` set (rev e)" by simp
  then have "map_of (rev e) k = None" by (metis map_of_eq_None_iff)
  then show ?thesis by (simp add: map_of_dict_update)
qed

section \<open>Facts about the model loader\<close>

lemma load_model_config_success:
  assumes "load_model_config ev a = Inr (mn, dev, cfg)"
  shows "truthy_str (lm_model_dir a)"
    and "mn = truediv ev (Path (the (lm_model_dir a))) (lm_model_name a)"
    and "dev = resolve_device ev (lm_device a)"
    and "exists_call ev mn = Inr True"
    and "exists_call ev (config_json_path_of ev mn) = Inr True"
    and "\<exists>dtype tt entries. map_of dtype_map (lm_precision a) = Some dtype
           \<and> teacache_thresh_of (lm_teacache_args a) = Inr tt
           \<and> json_load ev (config_json_path_of ev mn) = Inr (VDict entries)
           \<and> cfg = dict_update
                 (config_literal a mn dev dtype (feature_caching_of (lm_teacache_args a)) tt)
                 entries"
proof -
  from assms obtain dtype model_name b u b' config_json tt entries where
    d: "subscript dtype_map (lm_precision a) = Inr dtype"
    and n: "(if truthy_str (lm_model_dir a)
        then Inr (truediv ev (Path (the (lm_model_dir a))) (lm_model_name a))
        else bind_err (assert_that (lm_model_name a \<noteq> [])) (\<lambda>_. Inl AttributeError))
       = Inr model_name"
    and e: "exists_call ev model_name = Inr b"
    and ab: "assert_that b = Inr u"
    and e': "exists_call ev (config_json_path_of ev model_name) = Inr b'"
    and j: "(if b' then callee (json_load ev (config_json_path_of ev model_name))
             else Inl FileNotFoundError) = Inr config_json"
    and t: "teacache_thresh_of (lm_teacache_args a) = Inr tt"
    and k: "kwargs_of config_json = Inr entries"
    and r: "(Inr (model_name, resolve_device ev (lm_device a),
          dict_update (config_literal a model_name (resolve_device ev (lm_device a)) dtype
             (feature_caching_of (lm_teacache_args a)) tt) entries) :: error + path \<times> pyval \<times> dict)
        = Inr (mn, dev, cfg)"
    unfolding load_model_config_def bind_err_Inr Let_def
    by (elim exE conjE) (rule that, assumption+)
  from n show td: "truthy_str (lm_model_dir a)"
    by (simp add: bind_err_Inr split: if_splits)
  from n td r show mn: "mn = truediv ev (Path (the (lm_model_dir a))) (lm_model_name a)"
    by simp
  from r show dev: "dev = resolve_device ev (lm_device a)"
    by simp
  from r have mn': "model_name = mn"
    by simp
  from ab have b: "b"
    by (simp add: assert_that_Inr)
  from e b mn' show "exists_call ev mn = Inr True"
    by simp
  from j have b': "b'" and j': "json_load ev (config_json_path_of ev model_name) = Inr config_json"
    by (simp_all add: callee_Inr split: if_splits)
  from e' b' mn' show "exists_call ev (config_json_path_of ev mn) = Inr True"
    by simp
  from k have "config_json = VDict entries"
    by (simp add: kwargs_of_Inr)
  with d t j' r mn' dev show "\<exists>dtype tt entries. map_of dtype_map (lm_precision a) = Some dtype
           \<and> teacache_thresh_of (lm_teacache_args a) = Inr tt
           \<and> json_load ev (config_json_path_of ev mn) = Inr (VDict entries)
           \<and> cfg = dict_update
                 (config_literal a mn dev dtype (feature_caching_of (lm_teacache_args a)) tt)
                 entries"
    by (simp add: subscript_Inr)
qed

lemma load_model_success:
  assumes "load_model ev a st = (Inr m, st')"
  shows "\<exists>mn dev cfg. load_model_config ev a = Inr (mn, dev, cfg)
           \<and> m = \<lparr>wan_model_entry = WanModel mn (next_ref st) dev, config_entry = next_ref st\<rparr>
           \<and> store st' = (store st)(next_ref st := cfg)
           \<and> next_ref st' = Suc (next_ref st)"
  using assms
  by (auto simp add: load_model_def Let_def split: sum.splits prod.splits)

lemma load_model_failure:
  assumes "load_model ev a st = (Inl e, st')"
  shows "load_model_config ev a = Inl e \<and> st' = st"
  using assms
  by (auto simp add: load_model_def Let_def split: sum.splits prod.splits)

section \<open>The concrete installation at work\<close>

lemma example_load_model_config:
  "load_model_config example_env example_args = Inr (Path ''/models/wan'', VObj 0, example_config)"
  by (simp add: load_model_config_def example_env_def example_args_def example_config_def
      bind_err_def subscript_def dtype_map_def assert_that_def resolve_device_def
      config_json_path_of_def feature_caching_of_def teacache_thresh_of_def Let_def
      exists_call_def is_dir_call_def callee_def)

lemma example_load_model:
  "load_model example_env example_args example_state = (Inr example_model, example_loaded)"
  unfolding load_model_def example_load_model_config
  by (simp add: example_model_def example_loaded_def example_state_def example_args_def Let_def)

lemma example_override_load_model:
  "load_model example_override_env example_args example_state =
     (Inr example_model,
      example_loaded\<lparr>store := (\<lambda>r. [])
        (0 := dict_update
           (config_literal example_args (Path ''/models/wan'') (VObj 0) bfloat16 ''NoCaching''
              (VFloat ''0.26''))
           [(''feature_caching'', VStr ''TaylorSeer''), (''use_bfloat16'', VBool False)])\<rparr>)"
proof -
  have "load_model_config example_override_env example_args =
      Inr (Path ''/models/wan'', VObj 0,
           dict_update
             (config_literal example_args (Path ''/models/wan'') (VObj 0) bfloat16 ''NoCaching''
                (VFloat ''0.26''))
             [(''feature_caching'', VStr ''TaylorSeer''), (''use_bfloat16'', VBool False)])"
    by (simp add: load_model_config_def example_override_env_def example_env_def example_args_def
        bind_err_def subscript_def dtype_map_def assert_that_def resolve_device_def
        config_json_path_of_def feature_caching_of_def teacache_thresh_of_def Let_def
        exists_call_def is_dir_call_def callee_def)
  then show ?thesis
    unfolding load_model_def
    by (simp add: example_model_def example_loaded_def example_state_def example_args_def Let_def
        example_override_env_def example_env_def)
qed

text \<open>
  C6, as stated, fails when \<^verbatim>\<open>config.json\<close> defines a key of the mapping,
  since \<^verbatim>\<open>config.update(**config_json)\<close> writes over the literal: here the widgets give
  no \<^verbatim>\<open>teacache_args\<close> and the precision \<^verbatim>\<open>bf16\<close>, and the configuration that \<^verbatim>\<open>load_model\<close>
  returns has \<^verbatim>\<open>feature_caching\<close> \<^verbatim>\<open>"TaylorSeer"\<close> and \<^verbatim>\<open>use_bfloat16\<close> false.
\<close>

theorem load_model_widget_mapping_counterexample:
  "fst (load_model example_override_env example_args example_state) = Inr example_model
   \<and> lm_teacache_args example_args = None
   \<and> map_of (store (snd (load_model example_override_env example_args example_state))
         (config_entry example_model)) ''feature_caching'' = Some (VStr ''TaylorSeer'')
   \<and> lm_precision example_args = ''bf16''
   \<and> map_of (store (snd (load_model example_override_env example_args example_state))
         (config_entry example_model)) ''use_bfloat16'' = Some (VBool False)"
  unfolding example_override_load_model
  by (simp add: example_model_def example_args_def map_of_dict_update)

text \<open>
  C6, amended. Every successful call of \<^verbatim>\<open>load_model\<close> has read a JSON object
  \<open>entries\<close> from \<^verbatim>\<open>config.json\<close> and has built a dictionary literal \<open>lit\<close> in which:
  \<^item> the precision has been looked up in the table that maps \<^verbatim>\<open>bf16\<close>, \<^verbatim>\<open>fp16\<close>, \<^verbatim>\<open>fp32\<close>
    to \<^verbatim>\<open>torch.bfloat16\<close>, \<^verbatim>\<open>float16\<close>, \<^verbatim>\<open>float32\<close>, and \<^verbatim>\<open>use_bfloat16\<close> is true exactly
    when the precision is \<^verbatim>\<open>bf16\<close>;
  \<^item> \<^verbatim>\<open>feature_caching\<close> is \<^verbatim>\<open>"Tea"\<close> when \<^verbatim>\<open>teacache_args\<close> is not \<^verbatim>\<open>None\<close> and
    \<^verbatim>\<open>"NoCaching"\<close> otherwise;
  \<^item> \<^verbatim>\<open>teacache_thresh\<close> is \<^verbatim>\<open>teacache_args["rel_l1_thresh"]\<close> when \<^verbatim>\<open>teacache_args\<close> is a
    dictionary that is not empty, and \<^verbatim>\<open>0.26\<close> when it is \<^verbatim>\<open>None\<close> or empty;
  \<^item> \<^verbatim>\<open>lora_path\<close> is \<^verbatim>\<open>None\<close> when the widget's \<^verbatim>\<open>lora_path\<close> is \<^verbatim>\<open>None\<close>, empty or made
    of white space only (Unicode white space included), and is the widget's string
    otherwise.
  The configuration that the call returns is this literal updated with \<open>entries\<close>: at
  every key it holds the value that \<^verbatim>\<open>config.json\<close> gives the key, and the value of the
  literal where \<^verbatim>\<open>config.json\<close> gives none.
\<close>

theorem load_model_widget_mapping:
  assumes "load_model ev a st = (Inr m, st')"
  shows "\<exists>dtype thresh lit entries.
      subscript dtype_map (lm_precision a) = Inr dtype
    \<and> dtype_map = [(''bf16'', bfloat16), (''fp16'', float16), (''fp32'', float32)]
    \<and> (lm_precision a = ''bf16'' \<and> dtype = bfloat16
        \<or> lm_precision a = ''fp16'' \<and> dtype = float16
        \<or> lm_precision a = ''fp32'' \<and> dtype = float32)
    \<and> teacache_thresh_of (lm_teacache_args a) = Inr thresh
    \<and> lit = config_literal a (truediv ev (Path (the (lm_model_dir a))) (lm_model_name a))
              (resolve_device ev (lm_device a)) dtype (feature_caching_of (lm_teacache_args a))
              thresh
    \<and> json_load ev (config_json_path_of ev
          (truediv ev (Path (the (lm_model_dir a))) (lm_model_name a))) = Inr (VDict entries)
    \<and> store st' (config_entry m) = dict_update lit entries
    \<and> map_of lit ''use_bfloat16'' = Some (VBool (lm_precision a = ''bf16''))
    \<and> map_of lit ''feature_caching'' =
        Some (VStr (if lm_teacache_args a \<noteq> None then ''Tea'' else ''NoCaching''))
    \<and> map_of lit ''teacache_thresh'' = Some thresh
    \<and> (lm_teacache_args a = None \<or> lm_teacache_args a = Some [] \<longrightarrow> thresh = VFloat ''0.26'')
    \<and> (\<forall>t. lm_teacache_args a = Some t \<longrightarrow> t \<noteq> []
          \<longrightarrow> map_of t ''rel_l1_thresh'' = Some thresh)
    \<and> map_of lit ''lora_path'' =
        Some (case lm_lora_path a of
                None \<Rightarrow> VNone
              | Some s \<Rightarrow> if \<forall>c \<in> set s. is_space c then VNone else VUStr s)
    \<and> (\<forall>k. map_of (store st' (config_entry m)) k =
          (case map_of (rev entries) k of Some v \<Rightarrow> Some v | None \<Rightarrow> map_of lit k))"
  (is "\<exists>dtype thresh lit entries. ?P dtype thresh lit entries")
proof -
  from load_model_success [OF assms] obtain mn dev cfg where
    c: "load_model_config ev a = Inr (mn, dev, cfg)"
    and m: "m = \<lparr>wan_model_entry = WanModel mn (next_ref st) dev, config_entry = next_ref st\<rparr>"
    and s: "store st' = (store st)(next_ref st := cfg)"
    by blast
  from load_model_config_success [OF c] obtain dtype tt entries where
    mn: "mn = truediv ev (Path (the (lm_model_dir a))) (lm_model_name a)"
    and dev: "dev = resolve_device ev (lm_device a)"
    and d: "map_of dtype_map (lm_precision a) = Some dtype"
    and t: "teacache_thresh_of (lm_teacache_args a) = Inr tt"
    and j: "json_load ev (config_json_path_of ev mn) = Inr (VDict entries)"
    and cfg: "cfg = dict_update
          (config_literal a mn dev dtype (feature_caching_of (lm_teacache_args a)) tt)
          entries"
    by blast
  define lit where
    "lit = config_literal a mn dev dtype (feature_caching_of (lm_teacache_args a)) tt"
  from d have sub: "subscript dtype_map (lm_precision a) = Inr dtype"
    by (simp add: subscript_Inr)
  have tab: "dtype_map = [(''bf16'', bfloat16), (''fp16'', float16), (''fp32'', float32)]"
    by (simp add: dtype_map_def)
  have stored: "store st' (config_entry m) = dict_update lit entries"
    by (simp add: m s cfg lit_def)
  have prec: "lm_precision a = ''bf16'' \<and> dtype = bfloat16
        \<or> lm_precision a = ''fp16'' \<and> dtype = float16
        \<or> lm_precision a = ''fp32'' \<and> dtype = float32"
    using d by (auto simp add: dtype_map_def split: if_splits)
  then have bf: "dtype = bfloat16 \<longleftrightarrow> lm_precision a = ''bf16''"
    by auto
  have use: "map_of lit ''use_bfloat16'' = Some (VBool (lm_precision a = ''bf16''))"
    by (simp add: lit_def config_literal_def bf)
  have fc: "map_of lit ''feature_caching'' =
        Some (VStr (if lm_teacache_args a \<noteq> None then ''Tea'' else ''NoCaching''))"
    by (simp add: lit_def config_literal_def feature_caching_of_def)
  have th: "map_of lit ''teacache_thresh'' = Some tt"
    by (simp add: lit_def config_literal_def)
  have th_none: "lm_teacache_args a = None \<or> lm_teacache_args a = Some [] \<longrightarrow> tt = VFloat ''0.26''"
    using t by (auto simp add: teacache_thresh_of_def)
  have th_some: "\<forall>t. lm_teacache_args a = Some t \<longrightarrow> t \<noteq> []
          \<longrightarrow> map_of t ''rel_l1_thresh'' = Some tt"
  proof (intro allI impI)
    fix ta
    assume a: "lm_teacache_args a = Some ta" and b: "ta \<noteq> []"
    with t show "map_of ta ''rel_l1_thresh'' = Some tt"
      by (simp add: teacache_thresh_of_def subscript_Inr)
  qed
  have lora: "map_of lit ''lora_path'' =
        Some (case lm_lora_path a of
                None \<Rightarrow> VNone
              | Some s \<Rightarrow> if \<forall>c \<in> set s. is_space c then VNone else VUStr s)"
  proof (cases "lm_lora_path a")
    case None
    then show ?thesis
      by (simp add: lit_def config_literal_def)
  next
    case (Some s)
    have "strip_nonempty s \<longleftrightarrow> \<not> (\<forall>c \<in> set s. is_space c)"
      by (simp add: strip_nonempty_def list_ex_iff)
    moreover have "truthy_str (Some s) \<and> strip_nonempty s \<longleftrightarrow> strip_nonempty s"
      by (cases s) (simp_all add: strip_nonempty_def)
    ultimately show ?thesis
      using Some by (simp add: lit_def config_literal_def)
  qed
  have every: "\<forall>k. map_of (store st' (config_entry m)) k =
          (case map_of (rev entries) k of Some v \<Rightarrow> Some v | None \<Rightarrow> map_of lit k)"
    by (simp add: stored map_of_dict_update)
  have "?P dtype tt lit entries"
    using sub tab prec t j stored use fc th th_none th_some lora every
    unfolding lit_def mn dev
    by - (intro conjI; (rule refl | assumption))
  then show ?thesis
    by (intro exI)
qed

theorem load_model_widget_mapping_witness:
  "load_model example_env example_args example_state = (Inr example_model, example_loaded)
   \<and> map_of (store example_loaded (config_entry example_model)) ''use_bfloat16'' = Some (VBool True)
   \<and> map_of (store example_loaded (config_entry example_model)) ''feature_caching'' =
       Some (VStr ''NoCaching'')
   \<and> map_of (store example_loaded (config_entry example_model)) ''teacache_thresh'' =
       Some (VFloat ''0.26'')
   \<and> map_of (store example_loaded (config_entry example_model)) ''lora_path'' = Some VNone
   \<and> map_of (store example_loaded (config_entry example_model)) ''dim'' = Some (VInt 5120)"
proof -
  from load_model_widget_mapping [OF example_load_model] obtain dtype thresh lit entries where
    j: "json_load example_env (config_json_path_of example_env
          (truediv example_env (Path (the (lm_model_dir example_args)))
             (lm_model_name example_args))) = Inr (VDict entries)"
    and use: "map_of lit ''use_bfloat16'' = Some (VBool (lm_precision example_args = ''bf16''))"
    and fc: "map_of lit ''feature_caching'' =
        Some (VStr (if lm_teacache_args example_args \<noteq> None then ''Tea'' else ''NoCaching''))"
    and th: "map_of lit ''teacache_thresh'' = Some thresh"
    and th_none: "lm_teacache_args example_args = None \<or> lm_teacache_args example_args = Some []
          \<longrightarrow> thresh = VFloat ''0.26''"
    and lora: "map_of lit ''lora_path'' =
        Some (case lm_lora_path example_args of
                None \<Rightarrow> VNone
              | Some s \<Rightarrow> if \<forall>c \<in> set s. is_space c then VNone else VUStr s)"
    and every: "\<forall>k. map_of (store example_loaded (config_entry example_model)) k =
          (case map_of (rev entries) k of Some v \<Rightarrow> Some v | None \<Rightarrow> map_of lit k)"
    by (elim exE conjE) (rule that, assumption+)
  from j have entries: "entries = [(''dim'', VInt 5120)]"
    by (simp add: example_env_def)
  have "map_of (store example_loaded (config_entry example_model)) ''use_bfloat16'' =
      Some (VBool True)"
    using use by (simp add: every [rule_format] entries example_args_def)
  moreover have "map_of (store example_loaded (config_entry example_model)) ''feature_caching'' =
      Some (VStr ''NoCaching'')"
    using fc by (simp add: every [rule_format] entries example_args_def)
  moreover have "map_of (store example_loaded (config_entry example_model)) ''teacache_thresh'' =
      Some (VFloat ''0.26'')"
    using th th_none by (simp add: every [rule_format] entries example_args_def)
  moreover have "map_of (store example_loaded (config_entry example_model)) ''lora_path'' =
      Some VNone"
    using lora by (simp add: every [rule_format] entries example_args_def)
  moreover have "map_of (store example_loaded (config_entry example_model)) ''dim'' =
      Some (VInt 5120)"
    by (simp add: every [rule_format] entries)
  ultimately show ?thesis
    using example_load_model by - (intro conjI; assumption)
qed

section \<open>Facts about the sampler\<close>

lemma sampling_loop_calls:
  "sampling_loop scheduler wm inputs idxs t =
     t @ concat (map (\<lambda>i. [step_pre scheduler i, infer wm inputs, step_post scheduler,
                             progress_update]) idxs)"
  by (induction idxs arbitrary: t) simp_all

lemma init_scheduler_Inr:
  "init_scheduler r mc = Inr s \<longleftrightarrow>
     map_of mc ''feature_caching'' = Some (VStr ''NoCaching'') \<and> s = WanScheduler r
     \<or> map_of mc ''feature_caching'' = Some (VStr ''Tea'') \<and> s = WanSchedulerTeaCaching r"
  by (auto simp add: init_scheduler_def getattr_def bind_err_def split: option.splits)

lemma init_scheduler_Inl:
  "init_scheduler r mc = Inl e \<longleftrightarrow>
     map_of mc ''feature_caching'' = None \<and> e = AttributeError
     \<or> (\<exists>v. map_of mc ''feature_caching'' = Some v \<and> v \<noteq> VStr ''NoCaching''
            \<and> v \<noteq> VStr ''Tea'' \<and> e = NotImplementedError)"
  by (auto simp add: init_scheduler_def getattr_def bind_err_def split: option.splits)

lemma sample_Inr:
  assumes "sample ev model text_embeddings steps shift cfg_scale seed image_embeddings st
             = (Inr lat, st')"
  shows "\<exists>mc scheduler.
      sample_config ev image_embeddings steps shift cfg_scale seed (store st (config_entry model))
        = (Inr (), mc)
    \<and> init_scheduler (config_entry model) mc = Inr scheduler
    \<and> store st' = (store st)(config_entry model := mc)
    \<and> next_ref st' = next_ref st
    \<and> trace st' =
        (trace st @ [scheduler, set_scheduler (wan_model_entry model) scheduler,
                     prepare scheduler (VDict image_embeddings), ProgressBar steps])
        @ concat (map (\<lambda>i. [step_pre scheduler i,
                              infer (wan_model_entry model)
                                (VDict [(''text_encoder_output'', text_embeddings),
                                        (''image_encoder_output'', VDict image_embeddings)]),
                              step_post scheduler, progress_update])
            (py_range (sched_infer_steps ev
               (trace st @ [scheduler, set_scheduler (wan_model_entry model) scheduler,
                            prepare scheduler (VDict image_embeddings), ProgressBar steps]))))
        @ [clear scheduler, empty_cache]
    \<and> lat = \<lparr>samples = sched_latents ev (trace st'), generator = sched_generator ev (trace st')\<rparr>"
  using assms
  by (auto simp add: sample_def Let_def sampling_loop_calls
      split: prod.splits sum.splits)

lemma sample_Inl:
  assumes "sample ev model text_embeddings steps shift cfg_scale seed image_embeddings st
             = (Inl e, st')"
  shows "\<exists>res mc.
      sample_config ev image_embeddings steps shift cfg_scale seed (store st (config_entry model))
        = (res, mc)
    \<and> (res = Inl e \<or> res = Inr () \<and> init_scheduler (config_entry model) mc = Inl e)
    \<and> st' = st\<lparr>store := (store st)(config_entry model := mc)\<rparr>"
  using assms
  by (auto simp add: sample_def Let_def split: prod.splits sum.splits)

lemma sample_of_config:
  assumes "sample_config ev image_embeddings steps shift cfg_scale seed
             (store st (config_entry model)) = (Inr (), mc)"
    and "init_scheduler (config_entry model) mc = Inr scheduler"
  shows "\<exists>lat st'.
      sample ev model text_embeddings steps shift cfg_scale seed image_embeddings st = (Inr lat, st')"
  using assms by (simp add: sample_def Let_def)
lemma example_sample_config:
  "sample_config example_env example_embeds 20 (VFloat ''5.0'') (VFloat ''5.0'') 42 example_config
     = (Inr (), example_sampled_config)"
  by (simp add: sample_config_def example_embeds_def Lightx2vWanVideoEmptyEmbeds_process_def
      example_config_def config_literal_def example_args_def dict_update_def dict_get_def
      getattr_def set_target_shape_def bind_err_def floordiv_def Let_def example_env_def
      example_sampled_config_def method_hidden_def)

lemma example_init_scheduler:
  "init_scheduler 0 example_sampled_config = Inr (WanScheduler 0)"
  by (simp add: init_scheduler_def getattr_def bind_err_def example_sampled_config_def)

lemma py_range_2: "py_range 2 = [0, 1]"
  by (simp add: py_range_def upt_rec)

lemma example_sample:
  "sample example_env example_model (VObj 5) 20 (VFloat ''5.0'') (VFloat ''5.0'') 42
     example_embeds example_loaded = (Inr example_latent, example_sampled)"
proof -
  have c: "sample_config example_env example_embeds 20 (VFloat ''5.0'') (VFloat ''5.0'') 42
      (store example_loaded (config_entry example_model)) = (Inr (), example_sampled_config)"
    using example_sample_config by (simp add: example_loaded_def example_model_def)
  have n: "sched_infer_steps example_env t = 2" for t
    by (simp add: example_env_def)
  have l: "sched_latents example_env t = VObj 20" "sched_generator example_env t = VObj 21" for t
    by (simp_all add: example_env_def)
  have r: "config_entry example_model = 0"
    "wan_model_entry example_model = WanModel (Path ''/models/wan'') 0 (VObj 0)"
    by (simp_all add: example_model_def)
  show ?thesis
    unfolding sample_def c Let_def
    by (simp add: r n l example_init_scheduler py_range_2 example_sampled_def example_latent_def
        example_loaded_def example_inputs_def)
qed
text \<open>
  C7. For every successful call to \<^verbatim>\<open>sample\<close>, the library calls that the call adds to
  the trace are: the construction of the scheduler, \<^verbatim>\<open>set_scheduler\<close>, \<^verbatim>\<open>prepare\<close> and
  the progress bar; then, for each index \<open>i\<close> of \<open>0, \<dots>, n - 1\<close> in turn, where \<open>n\<close> is the
  scheduler's \<^verbatim>\<open>infer_steps\<close> when the loop starts, \<^verbatim>\<open>scheduler.step_pre(step_index=i)\<close>,
  \<^verbatim>\<open>wan_model.infer(inputs)\<close>, \<^verbatim>\<open>scheduler.step_post()\<close> in that order (and the progress
  update); then \<^verbatim>\<open>scheduler.clear()\<close> (and the cache release), and nothing else. The call
  returns the scheduler's latents and generator as they are after these calls.
\<close>

theorem sample_call_sequence:
  assumes "sample ev model text_embeddings steps shift cfg_scale seed image_embeddings st
             = (Inr lat, st')"
  shows "\<exists>scheduler n.
      (scheduler = WanScheduler (config_entry model)
         \<or> scheduler = WanSchedulerTeaCaching (config_entry model))
    \<and> n = sched_infer_steps ev
            (trace st @ [scheduler, set_scheduler (wan_model_entry model) scheduler,
                         prepare scheduler (VDict image_embeddings), ProgressBar steps])
    \<and> trace st' =
        (trace st @ [scheduler, set_scheduler (wan_model_entry model) scheduler,
                     prepare scheduler (VDict image_embeddings), ProgressBar steps])
        @ concat (map (\<lambda>i. [step_pre scheduler i,
                              infer (wan_model_entry model)
                                (VDict [(''text_encoder_output'', text_embeddings),
                                        (''image_encoder_output'', VDict image_embeddings)]),
                              step_post scheduler, progress_update])
            (map int [0..<nat n]))
        @ [clear scheduler, empty_cache]
    \<and> lat = \<lparr>samples = sched_latents ev (trace st'), generator = sched_generator ev (trace st')\<rparr>"
proof -
  from sample_Inr [OF assms] obtain mc scheduler where
    i: "init_scheduler (config_entry model) mc = Inr scheduler"
    and t: "trace st' =
        (trace st @ [scheduler, set_scheduler (wan_model_entry model) scheduler,
                     prepare scheduler (VDict image_embeddings), ProgressBar steps])
        @ concat (map (\<lambda>i. [step_pre scheduler i,
                              infer (wan_model_entry model)
                                (VDict [(''text_encoder_output'', text_embeddings),
                                        (''image_encoder_output'', VDict image_embeddings)]),
                              step_post scheduler, progress_update])
            (py_range (sched_infer_steps ev
               (trace st @ [scheduler, set_scheduler (wan_model_entry model) scheduler,
                            prepare scheduler (VDict image_embeddings), ProgressBar steps]))))
        @ [clear scheduler, empty_cache]"
    and l: "lat = \<lparr>samples = sched_latents ev (trace st'), generator = sched_generator ev (trace st')\<rparr>"
    by (elim exE conjE) (rule that, assumption+)
  from i have s: "scheduler = WanScheduler (config_entry model)
         \<or> scheduler = WanSchedulerTeaCaching (config_entry model)"
    unfolding init_scheduler_Inr by (elim disjE conjE) simp_all
  show ?thesis
    apply (rule exI [where x = scheduler])
    apply (rule exI [where x = "sched_infer_steps ev
            (trace st @ [scheduler, set_scheduler (wan_model_entry model) scheduler,
                         prepare scheduler (VDict image_embeddings), ProgressBar steps])"])
    apply (intro conjI)
       apply (rule s)
      apply (rule refl)
     apply (rule t [unfolded py_range_def])
    apply (rule l)
    done
qed

theorem sample_call_sequence_witness:
  "sample example_env example_model (VObj 5) 20 (VFloat ''5.0'') (VFloat ''5.0'') 42
     example_embeds example_loaded = (Inr example_latent, example_sampled)
   \<and> (\<exists>scheduler n.
      (scheduler = WanScheduler 0 \<or> scheduler = WanSchedulerTeaCaching 0)
    \<and> n = 2
    \<and> trace example_sampled =
        (trace example_loaded @
           [scheduler, set_scheduler (WanModel (Path ''/models/wan'') 0 (VObj 0)) scheduler,
            prepare scheduler (VDict example_embeds), ProgressBar 20])
        @ concat (map (\<lambda>i. [step_pre scheduler i,
                              infer (WanModel (Path ''/models/wan'') 0 (VObj 0)) example_inputs,
                              step_post scheduler, progress_update])
            (map int [0..<nat n]))
        @ [clear scheduler, empty_cache]
    \<and> example_latent = \<lparr>samples = VObj 20, generator = VObj 21\<rparr>)"
proof -
  have n: "sched_infer_steps example_env t = 2" for t
    by (simp add: example_env_def)
  have l: "sched_latents example_env t = VObj 20" "sched_generator example_env t = VObj 21" for t
    by (simp_all add: example_env_def)
  have r: "config_entry example_model = 0"
    "wan_model_entry example_model = WanModel (Path ''/models/wan'') 0 (VObj 0)"
    by (simp_all add: example_model_def)
  note w = sample_call_sequence [OF example_sample, unfolded n l r, folded example_inputs_def]
  from example_sample w show ?thesis
    by (rule conjI)
qed

section \<open>Facts about the configuration step of the sampler\<close>

text \<open>Setting the target shape writes at most the key \<^verbatim>\<open>target_shape\<close>.\<close>

lemma set_target_shape_Inr:
  assumes "set_target_shape mc = Inr mc'"
  shows "mc' = mc \<or> (\<exists>v. mc' = AList.update ''target_shape'' v mc)"
  using assms
  by (auto simp add: set_target_shape_def Let_def bind_err_Inr split: if_splits)

lemma set_target_shape_other:
  assumes "set_target_shape mc = Inr mc'" and "k \<noteq> ''target_shape''"
  shows "map_of mc' k = map_of mc k"
  using set_target_shape_Inr [OF assms(1)] assms(2)
  by (auto simp add: update_conv')

text \<open>The six attributes that \<^verbatim>\<open>sample\<close> assigns before it sets the target shape.\<close>

lemma sample_config_Inr:
  assumes "sample_config ev image_embeddings steps shift cfg_scale seed mc0 = (Inr (), mc)"
  shows "\<exists>image_config mc2.
      update_arg (dict_get image_embeddings ''config'' VNone) = Inr image_config
    \<and> \<not> method_hidden mc0 ''update'' \<and> \<not> method_hidden image_config ''update''
    \<and> mc2 =
         AList.update ''offload_granularity'' (VStr ''block'')
        (AList.update ''enable_cfg'' (VBool (if isclose_one ev cfg_scale then False else True))
        (AList.update ''seed'' (VInt seed)
        (AList.update ''sample_guide_scale'' cfg_scale
        (AList.update ''sample_shift'' shift
        (AList.update ''infer_steps'' (VInt steps) (dict_update mc0 image_config))))))
    \<and> set_target_shape mc2 = Inr mc"
proof -
  have c: "isclose_call ev v = Inr c \<Longrightarrow> c = isclose_one ev v" for v c
    by (cases v) auto
  from assms show ?thesis
    by (auto simp add: sample_config_def Let_def dest!: c split: sum.splits if_splits)
qed


text \<open>Every other key holds what the image configuration gave it, or else what it held.\<close>

lemma sample_config_kept:
  assumes "sample_config ev image_embeddings steps shift cfg_scale seed mc0 = (Inr (), mc)"
    and "k \<notin> {''infer_steps'', ''sample_shift'', ''sample_guide_scale'', ''seed'', ''enable_cfg'',
              ''offload_granularity'', ''target_shape''}"
  shows "\<exists>image_config.
      update_arg (dict_get image_embeddings ''config'' VNone) = Inr image_config
    \<and> map_of mc k = map_of (dict_update mc0 image_config) k"
proof -
  from sample_config_Inr [OF assms(1)] obtain image_config mc2 where
    ic: "update_arg (dict_get image_embeddings ''config'' VNone) = Inr image_config"
    and mc2: "mc2 =
         AList.update ''offload_granularity'' (VStr ''block'')
        (AList.update ''enable_cfg'' (VBool (if isclose_one ev cfg_scale then False else True))
        (AList.update ''seed'' (VInt seed)
        (AList.update ''sample_guide_scale'' cfg_scale
        (AList.update ''sample_shift'' shift
        (AList.update ''infer_steps'' (VInt steps) (dict_update mc0 image_config))))))"
    and ts: "set_target_shape mc2 = Inr mc"
    by blast
  from assms(2) have "k \<noteq> ''target_shape''" by simp
  from set_target_shape_other [OF ts this] have "map_of mc k = map_of mc2 k" .
  also have "\<dots> = map_of (dict_update mc0 image_config) k"
    using assms(2) by (simp add: mc2 update_conv')
  finally show ?thesis using ic by blast
qed
lemma example_i2v_load_model_config:
  "load_model_config example_env example_i2v_args
     = Inr (Path ''/models/wan'', VObj 0, example_i2v_config)"
  by (simp add: load_model_config_def example_env_def example_i2v_args_def example_args_def
      example_i2v_config_def bind_err_def subscript_def dtype_map_def assert_that_def
      resolve_device_def config_json_path_of_def feature_caching_of_def teacache_thresh_of_def
      Let_def exists_call_def is_dir_call_def callee_def)

lemma example_i2v_load_model:
  "load_model example_env example_i2v_args example_state = (Inr example_model, example_i2v_loaded)"
  unfolding load_model_def example_i2v_load_model_config
  by (simp add: example_model_def example_i2v_loaded_def example_state_def example_i2v_args_def
      example_args_def Let_def)

lemma example_i2v_sample_config:
  "sample_config example_env example_embeds 20 (VFloat ''5.0'') (VFloat ''5.0'') 42
     example_i2v_config
   = (Inl ValueError,
      dict_update example_i2v_config
        [(''target_height'', VInt 480), (''target_width'', VInt 832),
         (''target_video_length'', VInt 81), (''vae_stride'', VTuple [VInt 4, VInt 8, VInt 8]),
         (''patch_size'', VTuple [VInt 1, VInt 2, VInt 2])])"
  by (simp add: sample_config_def example_embeds_def Lightx2vWanVideoEmptyEmbeds_process_def
      example_i2v_config_def config_literal_def example_i2v_args_def example_args_def
      dict_update_def dict_get_def getattr_def Let_def method_hidden_def)

lemma example_i2v_sample:
  "sample example_env example_model (VObj 5) 20 (VFloat ''5.0'') (VFloat ''5.0'') 42
     example_embeds example_i2v_loaded
   = (Inl ValueError,
      example_i2v_loaded\<lparr>store := (store example_i2v_loaded)
        (0 := dict_update example_i2v_config
           [(''target_height'', VInt 480), (''target_width'', VInt 832),
            (''target_video_length'', VInt 81), (''vae_stride'', VTuple [VInt 4, VInt 8, VInt 8]),
            (''patch_size'', VTuple [VInt 1, VInt 2, VInt 2])])\<rparr>)"
proof -
  have c: "store example_i2v_loaded (config_entry example_model) = example_i2v_config"
    by (simp add: example_i2v_loaded_def example_model_def)
  show ?thesis
    unfolding sample_def c example_i2v_sample_config Let_def
    by (simp add: example_model_def)
qed
text \<open>
  C2, as stated, fails: \<^verbatim>\<open>sample\<close> checks the inputs of an image-to-video model before
  it looks at \<^verbatim>\<open>feature_caching\<close>. On the model that \<^verbatim>\<open>load_model\<close> builds for the task
  \<^verbatim>\<open>i2v\<close> and the embeddings of the empty-embeds node, \<^verbatim>\<open>feature_caching\<close> is
  \<^verbatim>\<open>"NoCaching"\<close>, yet the call raises \<^verbatim>\<open>ValueError\<close> and constructs no scheduler.
\<close>

theorem sample_scheduler_counterexample:
  "load_model example_env example_i2v_args example_state = (Inr example_model, example_i2v_loaded)
   \<and> map_of (store example_i2v_loaded (config_entry example_model)) ''feature_caching'' =
       Some (VStr ''NoCaching'')
   \<and> fst (sample example_env example_model (VObj 5) 20 (VFloat ''5.0'') (VFloat ''5.0'') 42
            example_embeds example_i2v_loaded) = Inl ValueError
   \<and> map_of (store (snd (sample example_env example_model (VObj 5) 20 (VFloat ''5.0'')
                            (VFloat ''5.0'') 42 example_embeds example_i2v_loaded))
               (config_entry example_model)) ''feature_caching'' = Some (VStr ''NoCaching'')
   \<and> filter is_scheduler_construction
        (trace (snd (sample example_env example_model (VObj 5) 20 (VFloat ''5.0'')
                       (VFloat ''5.0'') 42 example_embeds example_i2v_loaded))) = []"
proof -
  have fc: "map_of example_i2v_config ''feature_caching'' = Some (VStr ''NoCaching'')"
    by (simp add: example_i2v_config_def config_literal_def dict_update_def)
  have r: "config_entry example_model = 0"
    by (simp add: example_model_def)
  show ?thesis
    unfolding example_i2v_sample
    by (simp add: example_i2v_load_model r fc map_of_dict_update_other)
      (simp add: example_i2v_loaded_def fc)
qed

text \<open>
  C2, amended. In \<^verbatim>\<open>sample\<close>, once the configuration step has passed (the model's
  configuration is updated with the image configuration, the inputs of an \<^verbatim>\<open>i2v\<close> model
  are present and the target shape is set), scheduler construction is decided exactly by
  the \<^verbatim>\<open>feature_caching\<close> field of the updated configuration: the call constructs a
  \<^verbatim>\<open>WanScheduler\<close>, and no other scheduler, when the field equals \<^verbatim>\<open>"NoCaching"\<close>, a
  \<^verbatim>\<open>WanSchedulerTeaCaching\<close>, and no other scheduler, when it equals \<^verbatim>\<open>"Tea"\<close>, and for
  every other value it raises \<^verbatim>\<open>NotImplementedError\<close> without having called the library.
\<close>

theorem sample_scheduler_by_feature_caching:
  assumes "sample_config ev image_embeddings steps shift cfg_scale seed
             (store st (config_entry model)) = (Inr (), mc)"
  shows "(\<exists>image_config.
            update_arg (dict_get image_embeddings ''config'' VNone) = Inr image_config
          \<and> map_of mc ''feature_caching'' =
              map_of (dict_update (store st (config_entry model)) image_config) ''feature_caching'')
    \<and> (map_of mc ''feature_caching'' = Some (VStr ''NoCaching'') \<longrightarrow>
         (\<exists>lat st'.
            sample ev model text_embeddings steps shift cfg_scale seed image_embeddings st
              = (Inr lat, st')
          \<and> filter is_scheduler_construction (drop (length (trace st)) (trace st'))
              = [WanScheduler (config_entry model)]))
    \<and> (map_of mc ''feature_caching'' = Some (VStr ''Tea'') \<longrightarrow>
         (\<exists>lat st'.
            sample ev model text_embeddings steps shift cfg_scale seed image_embeddings st
              = (Inr lat, st')
          \<and> filter is_scheduler_construction (drop (length (trace st)) (trace st'))
              = [WanSchedulerTeaCaching (config_entry model)]))
    \<and> (\<forall>v. map_of mc ''feature_caching'' = Some v \<longrightarrow> v \<noteq> VStr ''NoCaching''
          \<longrightarrow> v \<noteq> VStr ''Tea'' \<longrightarrow>
          sample ev model text_embeddings steps shift cfg_scale seed image_embeddings st
            = (Inl NotImplementedError, st\<lparr>store := (store st)(config_entry model := mc)\<rparr>))"
proof (intro conjI impI allI)
  show "\<exists>image_config.
            update_arg (dict_get image_embeddings ''config'' VNone) = Inr image_config
          \<and> map_of mc ''feature_caching'' =
              map_of (dict_update (store st (config_entry model)) image_config) ''feature_caching''"
    by (rule sample_config_kept [OF assms]) simp
next
  have built: "\<exists>lat st'.
      sample ev model text_embeddings steps shift cfg_scale seed image_embeddings st = (Inr lat, st')
    \<and> filter is_scheduler_construction (drop (length (trace st)) (trace st')) = [scheduler]"
    if i: "init_scheduler (config_entry model) mc = Inr scheduler" for scheduler
  proof -
    from sample_of_config [OF assms i] obtain lat st' where
      s: "sample ev model text_embeddings steps shift cfg_scale seed image_embeddings st
            = (Inr lat, st')"
      by blast
    from sample_Inr [OF s] obtain mc' scheduler' where
      c': "sample_config ev image_embeddings steps shift cfg_scale seed
             (store st (config_entry model)) = (Inr (), mc')"
      and i': "init_scheduler (config_entry model) mc' = Inr scheduler'"
      and t: "trace st' =
        (trace st @ [scheduler', set_scheduler (wan_model_entry model) scheduler',
                     prepare scheduler' (VDict image_embeddings), ProgressBar steps])
        @ concat (map (\<lambda>i. [step_pre scheduler' i,
                              infer (wan_model_entry model)
                                (VDict [(''text_encoder_output'', text_embeddings),
                                        (''image_encoder_output'', VDict image_embeddings)]),
                              step_post scheduler', progress_update])
            (py_range (sched_infer_steps ev
               (trace st @ [scheduler', set_scheduler (wan_model_entry model) scheduler',
                            prepare scheduler' (VDict image_embeddings), ProgressBar steps]))))
        @ [clear scheduler', empty_cache]"
      by (elim exE conjE) (rule that, assumption+)
    from c' assms have "mc' = mc" by simp
    with i i' have same: "scheduler' = scheduler" by simp
    from i have ctor: "is_scheduler_construction scheduler"
      unfolding init_scheduler_Inr by (elim disjE conjE) simp_all
    have "filter is_scheduler_construction (drop (length (trace st)) (trace st')) = [scheduler]"
      unfolding t same using ctor by (simp add: filter_concat comp_def)
    with s show ?thesis by blast
  qed
  {
    assume "map_of mc ''feature_caching'' = Some (VStr ''NoCaching'')"
    then have "init_scheduler (config_entry model) mc = Inr (WanScheduler (config_entry model))"
      by (simp add: init_scheduler_Inr)
    then show "\<exists>lat st'.
            sample ev model text_embeddings steps shift cfg_scale seed image_embeddings st
              = (Inr lat, st')
          \<and> filter is_scheduler_construction (drop (length (trace st)) (trace st'))
              = [WanScheduler (config_entry model)]"
      by (rule built)
  }
  {
    assume "map_of mc ''feature_caching'' = Some (VStr ''Tea'')"
    then have "init_scheduler (config_entry model) mc
        = Inr (WanSchedulerTeaCaching (config_entry model))"
      by (simp add: init_scheduler_Inr)
    then show "\<exists>lat st'.
            sample ev model text_embeddings steps shift cfg_scale seed image_embeddings st
              = (Inr lat, st')
          \<and> filter is_scheduler_construction (drop (length (trace st)) (trace st'))
              = [WanSchedulerTeaCaching (config_entry model)]"
      by (rule built)
  }
  {
    fix v
    assume "map_of mc ''feature_caching'' = Some v" and "v \<noteq> VStr ''NoCaching''"
      and "v \<noteq> VStr ''Tea''"
    then have "init_scheduler (config_entry model) mc = Inl NotImplementedError"
      by (simp add: init_scheduler_Inl)
    with assms show "sample ev model text_embeddings steps shift cfg_scale seed image_embeddings st
            = (Inl NotImplementedError, st\<lparr>store := (store st)(config_entry model := mc)\<rparr>)"
      by (simp add: sample_def Let_def)
  }
qed
lemma example_taylor_sample_config:
  "sample_config example_env example_embeds 20 (VFloat ''5.0'') (VFloat ''5.0'') 42
     (AList.update ''feature_caching'' (VStr ''TaylorSeer'') example_config)
   = (Inr (), AList.update ''feature_caching'' (VStr ''TaylorSeer'') example_sampled_config)"
  by (simp add: sample_config_def example_embeds_def Lightx2vWanVideoEmptyEmbeds_process_def
      example_config_def config_literal_def example_args_def dict_update_def dict_get_def
      getattr_def set_target_shape_def bind_err_def floordiv_def Let_def example_env_def
      example_sampled_config_def method_hidden_def)

theorem sample_scheduler_by_feature_caching_witness:
  "sample_config example_env example_embeds 20 (VFloat ''5.0'') (VFloat ''5.0'') 42
     (store example_loaded (config_entry example_model)) = (Inr (), example_sampled_config)
   \<and> map_of example_sampled_config ''feature_caching'' = Some (VStr ''NoCaching'')
   \<and> (\<exists>lat st'.
         sample example_env example_model (VObj 5) 20 (VFloat ''5.0'') (VFloat ''5.0'') 42
           example_embeds example_loaded = (Inr lat, st')
       \<and> filter is_scheduler_construction (drop (length (trace example_loaded)) (trace st'))
           = [WanScheduler (config_entry example_model)])
   \<and> sample_config example_env example_embeds 20 (VFloat ''5.0'') (VFloat ''5.0'') 42
       (store example_taylor_loaded (config_entry example_model))
       = (Inr (), AList.update ''feature_caching'' (VStr ''TaylorSeer'') example_sampled_config)
   \<and> sample example_env example_model (VObj 5) 20 (VFloat ''5.0'') (VFloat ''5.0'') 42
       example_embeds example_taylor_loaded
       = (Inl NotImplementedError,
          example_taylor_loaded\<lparr>store := (store example_taylor_loaded)
            (config_entry example_model :=
               AList.update ''feature_caching'' (VStr ''TaylorSeer'') example_sampled_config)\<rparr>)"
proof -
  have c: "sample_config example_env example_embeds 20 (VFloat ''5.0'') (VFloat ''5.0'') 42
      (store example_loaded (config_entry example_model)) = (Inr (), example_sampled_config)"
    using example_sample_config by (simp add: example_loaded_def example_model_def)
  have fc: "map_of example_sampled_config ''feature_caching'' = Some (VStr ''NoCaching'')"
    by (simp add: example_sampled_config_def)
  have c': "sample_config example_env example_embeds 20 (VFloat ''5.0'') (VFloat ''5.0'') 42
       (store example_taylor_loaded (config_entry example_model))
       = (Inr (), AList.update ''feature_caching'' (VStr ''TaylorSeer'') example_sampled_config)"
    using example_taylor_sample_config
    by (simp add: example_taylor_loaded_def example_loaded_def example_model_def)
  have fc': "map_of (AList.update ''feature_caching'' (VStr ''TaylorSeer'') example_sampled_config)
      ''feature_caching'' = Some (VStr ''TaylorSeer'')"
    by (simp add: update_conv')
  note a = sample_scheduler_by_feature_caching [OF c, of "VObj 5", THEN conjunct2, THEN conjunct1,
      rule_format, OF fc]
  have ne: "VStr ''TaylorSeer'' \<noteq> VStr ''NoCaching''" "VStr ''TaylorSeer'' \<noteq> VStr ''Tea''"
    by simp_all
  note b = sample_scheduler_by_feature_caching [OF c', of "VObj 5", THEN conjunct2, THEN conjunct2,
      THEN conjunct2, rule_format, OF fc' ne]
  from c fc a c' b show ?thesis
    by (intro conjI)
qed

section \<open>The errors of the configuration step\<close>

lemma getattr_Inr: "getattr d k = Inr v \<longleftrightarrow> map_of d k = Some v"
  by (simp add: getattr_def split: option.splits)


















section \<open>The decoder node\<close>








section \<open>The errors that the node operations raise by their own statements\<close>




lemma bind_err_raise: "bind_err (Inl e) f = Inl e"
  by (simp add: bind_err_def)

lemma exists_call_not_statement:
  "exists_call ev p = Inl e \<Longrightarrow> \<not> raised_by_statement e"
  by (auto simp add: exists_call_Inl raised_by_statement_def)


















end
